theory Spec2Isabelle
  imports Main "HOL-Library.Word" "HOL-Library.Monad_Syntax"
begin

chapter \<open>FactomCode: credit-block codec, peer manager, leader machine, REST admin\<close>

text \<open>
  A shallow embedding of the functions of \<^verbatim>\<open>common/cchain.go\<close>, the server file
  concatenated to it, and the RESTful admin handler. Go's run-time panics (nil
  dereference, integer division by zero, index or slice bounds, a length that \<^verbatim>\<open>make\<close>
  cannot allocate, a call of \<^verbatim>\<open>panic\<close>) are values of the type \<open>panic\<close>; a function that
  can panic returns \<open>panic + 'a\<close>.
\<close>

datatype panic = DivideByZero | NilDereference | IndexOutOfRange | SliceOutOfRange
  | MakeSliceLenOutOfRange | PanicCalled

section \<open>randomUint16Number\<close>

text \<open>
  The body of the \<^verbatim>\<open>for\<close> loop of \<^verbatim>\<open>randomUint16Number\<close>. Each
  \<^verbatim>\<open>binary.Read(rand.Reader, ...)\<close> is the next element of the list of samples; the
  loop has no exit but the \<^verbatim>\<open>return\<close>, so a list of samples that are all rejected
  gives \<open>None\<close>: the loop is still running.
\<close>

fun sampleLoop :: "16 word \<Rightarrow> 16 word \<Rightarrow> 16 word list \<Rightarrow> 16 word option" where
  "sampleLoop mx limitRange [] = None"
| "sampleLoop mx limitRange (randomNumber # rest) =
     (if randomNumber < limitRange then Some (randomNumber mod mx)
      else sampleLoop mx limitRange rest)"

text \<open>
  \<^verbatim>\<open>var limitRange = (math.MaxUint16 / max) * max\<close> is computed in \<^verbatim>\<open>uint16\<close>;
  the division panics when \<^verbatim>\<open>max\<close> is 0.
\<close>

definition randomUint16Number :: "16 word \<Rightarrow> 16 word list \<Rightarrow> panic + 16 word option" where
  "randomUint16Number mx samples =
     (if mx = 0 then Inl DivideByZero
      else Inr (sampleLoop mx ((65535 div mx) * mx) samples))"

section \<open>Byte slices and big-endian integers\<close>

type_synonym byte = "8 word"

text \<open>Sequencing of steps that can panic: the first panic ends the function.\<close>

definition bindP :: "panic + 'a \<Rightarrow> ('a \<Rightarrow> panic + 'b) \<Rightarrow> panic + 'b" where
  "bindP m f = (case m of Inl p \<Rightarrow> Inl p | Inr a \<Rightarrow> f a)"

text \<open>
  The slice expressions \<^verbatim>\<open>data[n:]\<close>, \<^verbatim>\<open>data[:n]\<close> and the index expression
  \<^verbatim>\<open>data[0]\<close>. A byte slice is the list of its elements: its capacity is its length,
  so a bound beyond the length panics.
\<close>

definition sliceFrom :: "nat \<Rightarrow> byte list \<Rightarrow> panic + byte list" where
  "sliceFrom n data = (if n \<le> length data then Inr (drop n data) else Inl SliceOutOfRange)"

definition sliceTo :: "nat \<Rightarrow> byte list \<Rightarrow> panic + byte list" where
  "sliceTo n data = (if n \<le> length data then Inr (take n data) else Inl SliceOutOfRange)"

definition index0 :: "byte list \<Rightarrow> panic + byte" where
  "index0 data = (case data of [] \<Rightarrow> Inl IndexOutOfRange | b # _ \<Rightarrow> Inr b)"

text \<open>
  \<^verbatim>\<open>encoding/binary\<close> with \<^verbatim>\<open>binary.BigEndian\<close>: \<open>be_bytes k v\<close> are the \<open>k\<close>
  low bytes of \<open>v\<close>, most significant first, and \<open>be_nat\<close> reads such bytes back.
\<close>

fun be_bytes :: "nat \<Rightarrow> nat \<Rightarrow> byte list" where
  "be_bytes 0 v = []"
| "be_bytes (Suc k) v = of_nat (v div 256 ^ k) # be_bytes k v"

definition be_nat :: "byte list \<Rightarrow> nat" where
  "be_nat b = foldl (\<lambda>a x. a * 256 + unat x) 0 b"

text \<open>\<^verbatim>\<open>binary.Write(&buf, binary.BigEndian, v)\<close> for a 32-bit and a 64-bit \<open>v\<close>.\<close>

definition PutUint32 :: "32 word \<Rightarrow> byte list" where
  "PutUint32 v = be_bytes 4 (unat v)"

definition PutUint64 :: "64 word \<Rightarrow> byte list" where
  "PutUint64 v = be_bytes 8 (unat v)"

text \<open>
  \<^verbatim>\<open>binary.BigEndian.Uint32(b)\<close> and \<^verbatim>\<open>binary.BigEndian.Uint64(b)\<close> on a slice
  \<open>b\<close> of exactly 4 and 8 bytes, which is how every call of the source passes it
  (\<^verbatim>\<open>data[0:4]\<close>, \<^verbatim>\<open>data[0:8]\<close>); \<^verbatim>\<open>binary.Read\<close> of an \<^verbatim>\<open>int32\<close> or
  \<^verbatim>\<open>int64\<close> from a buffer of 4 or 8 bytes gives the same bits.
\<close>

definition Uint32 :: "byte list \<Rightarrow> 32 word" where
  "Uint32 b = of_nat (be_nat b)"

definition Uint64 :: "byte list \<Rightarrow> 64 word" where
  "Uint64 b = of_nat (be_nat b)"

text \<open>
  The idiom \<^verbatim>\<open>x, data = binary.BigEndian.Uint32(data[0:4]), data[4:]\<close> and its
  64-bit form: the value read and the rest of the data.
\<close>

definition readUint32 :: "byte list \<Rightarrow> panic + (32 word \<times> byte list)" where
  "readUint32 data =
     bindP (sliceTo 4 data) (\<lambda>b. bindP (sliceFrom 4 data) (\<lambda>rest. Inr (Uint32 b, rest)))"

definition readUint64 :: "byte list \<Rightarrow> panic + (64 word \<times> byte list)" where
  "readUint64 data =
     bindP (sliceTo 8 data) (\<lambda>b. bindP (sliceFrom 8 data) (\<lambda>rest. Inr (Uint64 b, rest)))"

section \<open>Hash\<close>

datatype Hash = Hash (Bytes: "byte list")

text \<open>
  Modelled from the spec: the methods \<^verbatim>\<open>MarshalBinary\<close>, \<^verbatim>\<open>MarshalledSize\<close>
  and \<^verbatim>\<open>UnmarshalBinary\<close> of \<^verbatim>\<open>Hash\<close>, whose file is not among the sources. The
  spec gives every hash field 33 bytes in the block header and in the credit-block
  entries (\<open>chainID(33B)\<close>, \<open>publicKey(33B)\<close>), and \<^verbatim>\<open>CBInfo.MarshalledSize\<close> counts
  33 per hash: one length byte, then the 32 bytes of the digest. A field of type
  \<^verbatim>\<open>*Hash\<close> is a \<open>Hash option\<close>; calling a method on \<^verbatim>\<open>nil\<close> panics.
\<close>

definition Hash_MarshalBinary :: "Hash option \<Rightarrow> panic + byte list" where
  "Hash_MarshalBinary h =
     (case h of None \<Rightarrow> Inl NilDereference
      | Some x \<Rightarrow> Inr (of_nat (length (Bytes x)) # Bytes x))"

text \<open>Modelled from the spec: the serialised size of a hash, its bytes and the length byte.\<close>

definition Hash_MarshalledSize :: "Hash option \<Rightarrow> panic + nat" where
  "Hash_MarshalledSize h =
     (case h of None \<Rightarrow> Inl NilDereference | Some x \<Rightarrow> Inr (length (Bytes x) + 1))"

text \<open>
  Modelled from the spec: reading a hash takes the 33 bytes at the front of the data
  and keeps the 32 after the length byte; shorter data is a slice out of range.
\<close>

definition Hash_UnmarshalBinary :: "byte list \<Rightarrow> panic + Hash option" where
  "Hash_UnmarshalBinary p =
     (if length p < 33 then Inl SliceOutOfRange else Inr (Some (Hash (take 32 (drop 1 p)))))"

text \<open>A hash field that is not \<^verbatim>\<open>nil\<close> and holds a 32-byte digest: 33 bytes serialised.\<close>

definition validHash :: "Hash option \<Rightarrow> bool" where
  "validHash h = (case h of None \<Rightarrow> False | Some x \<Rightarrow> length (Bytes x) = 32)"

text \<open>
  The three lines \<^verbatim>\<open>x = new(Hash); x.UnmarshalBinary(data); data = data[x.MarshalledSize():]\<close>
  that the unmarshalling functions repeat: the hash read and the rest of the data.
\<close>

definition readHash :: "byte list \<Rightarrow> panic + (Hash option \<times> byte list)" where
  "readHash data =
     bindP (Hash_UnmarshalBinary data) (\<lambda>h.
     bindP (Hash_MarshalledSize h) (\<lambda>n.
     bindP (sliceFrom n data) (\<lambda>rest. Inr (h, rest))))"

section \<open>CBInfo\<close>

record CBInfo =
  CBHash :: "Hash option"
  FBHash :: "Hash option"
  FBBlockNum :: "64 word"
  ChainID :: "Hash option"

definition CBInfo_MarshalBinary :: "CBInfo \<Rightarrow> panic + byte list" where
  "CBInfo_MarshalBinary b =
     bindP (Hash_MarshalBinary (CBHash b)) (\<lambda>d1.
     bindP (Hash_MarshalBinary (FBHash b)) (\<lambda>d2.
     bindP (Hash_MarshalBinary (CBInfo.ChainID b)) (\<lambda>d3.
       Inr (d1 @ d2 @ PutUint64 (FBBlockNum b) @ d3))))"

definition CBInfo_MarshalledSize :: "CBInfo \<Rightarrow> nat" where
  "CBInfo_MarshalledSize b = 33 + 33 + 8 + 33"

definition CBInfo_UnmarshalBinary :: "byte list \<Rightarrow> panic + CBInfo" where
  "CBInfo_UnmarshalBinary data =
     bindP (sliceTo 33 data) (\<lambda>p1.
     bindP (Hash_UnmarshalBinary p1) (\<lambda>h1.
     bindP (sliceFrom 33 data) (\<lambda>data1.
     bindP (sliceTo 33 data1) (\<lambda>p2.
     bindP (Hash_UnmarshalBinary p2) (\<lambda>h2.
     bindP (sliceFrom 33 data1) (\<lambda>data2.
     bindP (sliceTo 8 data2) (\<lambda>b8.
     bindP (sliceFrom 8 data2) (\<lambda>data3.
     bindP (sliceTo 33 data3) (\<lambda>p3.
     bindP (Hash_UnmarshalBinary p3) (\<lambda>h3.
       Inr \<lparr>CBHash = h1, FBHash = h2, FBBlockNum = Uint64 b8, ChainID = h3\<rparr>))))))))))"

section \<open>CBlockHeader\<close>

record CBlockHeader =
  ChainID :: "Hash option"
  BodyHash :: "Hash option"
  PrevKeyMR :: "Hash option"
  PrevHash :: "Hash option"
  DBHeight :: "32 word"
  SegmentsMR :: "Hash option"
  BalanceMR :: "Hash option"
  BodySize :: "64 word"

definition CBlockHeader_MarshalBinary :: "CBlockHeader \<Rightarrow> panic + byte list" where
  "CBlockHeader_MarshalBinary b =
     bindP (Hash_MarshalBinary (CBlockHeader.ChainID b)) (\<lambda>d1.
     bindP (Hash_MarshalBinary (BodyHash b)) (\<lambda>d2.
     bindP (Hash_MarshalBinary (PrevKeyMR b)) (\<lambda>d3.
     bindP (Hash_MarshalBinary (PrevHash b)) (\<lambda>d4.
     bindP (Hash_MarshalBinary (SegmentsMR b)) (\<lambda>d5.
     bindP (Hash_MarshalBinary (BalanceMR b)) (\<lambda>d6.
       Inr (d1 @ d2 @ d3 @ d4 @ PutUint32 (DBHeight b) @ d5 @ d6 @ PutUint64 (BodySize b))))))))"

definition CBlockHeader_MarshalledSize :: "CBlockHeader \<Rightarrow> panic + nat" where
  "CBlockHeader_MarshalledSize b =
     bindP (Hash_MarshalledSize (CBlockHeader.ChainID b)) (\<lambda>n1.
     bindP (Hash_MarshalledSize (BodyHash b)) (\<lambda>n2.
     bindP (Hash_MarshalledSize (PrevKeyMR b)) (\<lambda>n3.
     bindP (Hash_MarshalledSize (PrevHash b)) (\<lambda>n4.
     bindP (Hash_MarshalledSize (SegmentsMR b)) (\<lambda>n5.
     bindP (Hash_MarshalledSize (BalanceMR b)) (\<lambda>n6.
       Inr (n1 + n2 + n3 + n4 + 4 + n5 + n6 + 8)))))))"

definition CBlockHeader_UnmarshalBinary :: "byte list \<Rightarrow> panic + CBlockHeader" where
  "CBlockHeader_UnmarshalBinary data =
     bindP (readHash data) (\<lambda>(chainID, data1).
     bindP (readHash data1) (\<lambda>(bodyHash, data2).
     bindP (readHash data2) (\<lambda>(prevKeyMR, data3).
     bindP (readHash data3) (\<lambda>(prevHash, data4).
     bindP (readUint32 data4) (\<lambda>(dbHeight, data5).
     bindP (readHash data5) (\<lambda>(segmentsMR, data6).
     bindP (readHash data6) (\<lambda>(balanceMR, data7).
     bindP (readUint64 data7) (\<lambda>(bodySize, data8).
       Inr \<lparr>ChainID = chainID, BodyHash = bodyHash, PrevKeyMR = prevKeyMR,
            PrevHash = prevHash, DBHeight = dbHeight, SegmentsMR = segmentsMR,
            BalanceMR = balanceMR, BodySize = bodySize\<rparr>))))))))"

section \<open>Credit-block entries\<close>

definition TYPE_SERVER_INDEX :: byte where "TYPE_SERVER_INDEX = 0"
definition TYPE_MINUTE_NUMBER :: byte where "TYPE_MINUTE_NUMBER = 1"
definition TYPE_PAY_CHAIN :: byte where "TYPE_PAY_CHAIN = 2"
definition TYPE_PAY_ENTRY :: byte where "TYPE_PAY_ENTRY = 3"
definition TYPE_BUY :: byte where "TYPE_BUY = 4"

text \<open>
  The three entry structs. Each embeds the interface \<^verbatim>\<open>CBEntry\<close>, a field that no
  function of the file reads or writes; it is left out. \<^verbatim>\<open>credits\<close> (\<^verbatim>\<open>int32\<close>) and
  \<^verbatim>\<open>TimeStamp\<close> (\<^verbatim>\<open>int64\<close>) are the words of their two's-complement bits, and
  \<^verbatim>\<open>Sig\<close> is the list of its bytes.
\<close>

record BuyCBEntry =
  entryType :: byte
  publicKey :: "Hash option"
  credits :: "32 word"
  FactomTxHash :: "Hash option"

record PayEntryCBEntry =
  entryType :: byte
  publicKey :: "Hash option"
  credits :: "32 word"
  EntryHash :: "Hash option"
  TimeStamp :: "64 word"
  Sig :: "byte list"

record PayChainCBEntry =
  entryType :: byte
  publicKey :: "Hash option"
  credits :: "32 word"
  EntryHash :: "Hash option"
  ChainIDHash :: "Hash option"
  EntryChainIDHash :: "Hash option"
  Sig :: "byte list"

subsection \<open>BuyCBEntry\<close>

definition BuyCBEntry_MarshalBinary :: "BuyCBEntry \<Rightarrow> panic + byte list" where
  "BuyCBEntry_MarshalBinary e =
     bindP (Hash_MarshalBinary (BuyCBEntry.publicKey e)) (\<lambda>d1.
     bindP (Hash_MarshalBinary (FactomTxHash e)) (\<lambda>d2.
       Inr ([BuyCBEntry.entryType e] @ d1 @ PutUint32 (BuyCBEntry.credits e) @ d2)))"

definition BuyCBEntry_MarshalledSize :: "BuyCBEntry \<Rightarrow> panic + nat" where
  "BuyCBEntry_MarshalledSize e =
     bindP (Hash_MarshalledSize (BuyCBEntry.publicKey e)) (\<lambda>n1.
     bindP (Hash_MarshalledSize (FactomTxHash e)) (\<lambda>n2.
       Inr (1 + n1 + 4 + n2)))"

definition BuyCBEntry_UnmarshalBinary :: "byte list \<Rightarrow> panic + BuyCBEntry" where
  "BuyCBEntry_UnmarshalBinary data =
     bindP (index0 data) (\<lambda>t.
     bindP (sliceFrom 1 data) (\<lambda>data1.
     bindP (readHash data1) (\<lambda>(pk, data2).
     bindP (readUint32 data2) (\<lambda>(cr, data3).
     bindP (Hash_UnmarshalBinary data3) (\<lambda>tx.
       Inr \<lparr>BuyCBEntry.entryType = t, BuyCBEntry.publicKey = pk,
            BuyCBEntry.credits = cr, FactomTxHash = tx\<rparr>)))))"

subsection \<open>PayEntryCBEntry\<close>

text \<open>\<^verbatim>\<open>uint32(count)\<close> keeps the low 32 bits of \<^verbatim>\<open>len(e.Sig)\<close>.\<close>

definition PayEntryCBEntry_MarshalBinary :: "PayEntryCBEntry \<Rightarrow> panic + byte list" where
  "PayEntryCBEntry_MarshalBinary e =
     bindP (Hash_MarshalBinary (PayEntryCBEntry.publicKey e)) (\<lambda>d1.
     bindP (Hash_MarshalBinary (PayEntryCBEntry.EntryHash e)) (\<lambda>d2.
       Inr ([PayEntryCBEntry.entryType e] @ d1 @ PutUint32 (PayEntryCBEntry.credits e) @ d2
            @ PutUint64 (TimeStamp e)
            @ PutUint32 (of_nat (length (PayEntryCBEntry.Sig e))) @ PayEntryCBEntry.Sig e)))"

definition PayEntryCBEntry_MarshalledSize :: "PayEntryCBEntry \<Rightarrow> panic + nat" where
  "PayEntryCBEntry_MarshalledSize e =
     bindP (Hash_MarshalledSize (PayEntryCBEntry.publicKey e)) (\<lambda>n1.
     bindP (Hash_MarshalledSize (PayEntryCBEntry.EntryHash e)) (\<lambda>n2.
       Inr (1 + n1 + 4 + n2 + 8 + 4 + length (PayEntryCBEntry.Sig e))))"

definition PayEntryCBEntry_UnmarshalBinary :: "byte list \<Rightarrow> panic + PayEntryCBEntry" where
  "PayEntryCBEntry_UnmarshalBinary data =
     bindP (index0 data) (\<lambda>t.
     bindP (sliceFrom 1 data) (\<lambda>data1.
     bindP (readHash data1) (\<lambda>(pk, data2).
     bindP (readUint32 data2) (\<lambda>(cr, data3).
     bindP (readHash data3) (\<lambda>(eh, data4).
     bindP (readUint64 data4) (\<lambda>(ts, data5).
     bindP (readUint32 data5) (\<lambda>(len, data6).
     bindP (sliceTo (unat len) data6) (\<lambda>sg.
       Inr \<lparr>PayEntryCBEntry.entryType = t, PayEntryCBEntry.publicKey = pk,
            PayEntryCBEntry.credits = cr, PayEntryCBEntry.EntryHash = eh,
            TimeStamp = ts, PayEntryCBEntry.Sig = sg\<rparr>))))))))"

subsection \<open>PayChainCBEntry\<close>

definition PayChainCBEntry_MarshalBinary :: "PayChainCBEntry \<Rightarrow> panic + byte list" where
  "PayChainCBEntry_MarshalBinary e =
     bindP (Hash_MarshalBinary (PayChainCBEntry.publicKey e)) (\<lambda>d1.
     bindP (Hash_MarshalBinary (PayChainCBEntry.EntryHash e)) (\<lambda>d2.
     bindP (Hash_MarshalBinary (ChainIDHash e)) (\<lambda>d3.
     bindP (Hash_MarshalBinary (EntryChainIDHash e)) (\<lambda>d4.
       Inr ([PayChainCBEntry.entryType e] @ d1 @ PutUint32 (PayChainCBEntry.credits e)
            @ d2 @ d3 @ d4
            @ PutUint32 (of_nat (length (PayChainCBEntry.Sig e))) @ PayChainCBEntry.Sig e)))))"

definition PayChainCBEntry_MarshalledSize :: "PayChainCBEntry \<Rightarrow> panic + nat" where
  "PayChainCBEntry_MarshalledSize e =
     bindP (Hash_MarshalledSize (PayChainCBEntry.publicKey e)) (\<lambda>n1.
     bindP (Hash_MarshalledSize (PayChainCBEntry.EntryHash e)) (\<lambda>n2.
     bindP (Hash_MarshalledSize (ChainIDHash e)) (\<lambda>n3.
     bindP (Hash_MarshalledSize (EntryChainIDHash e)) (\<lambda>n4.
       Inr (1 + n1 + 4 + n2 + n3 + n4 + 4 + length (PayChainCBEntry.Sig e))))))"

definition PayChainCBEntry_UnmarshalBinary :: "byte list \<Rightarrow> panic + PayChainCBEntry" where
  "PayChainCBEntry_UnmarshalBinary data =
     bindP (index0 data) (\<lambda>t.
     bindP (sliceFrom 1 data) (\<lambda>data1.
     bindP (readHash data1) (\<lambda>(pk, data2).
     bindP (readUint32 data2) (\<lambda>(cr, data3).
     bindP (readHash data3) (\<lambda>(eh, data4).
     bindP (readHash data4) (\<lambda>(ch, data5).
     bindP (readHash data5) (\<lambda>(ech, data6).
     bindP (readUint32 data6) (\<lambda>(len, data7).
     bindP (sliceTo (unat len) data7) (\<lambda>sg.
       Inr \<lparr>PayChainCBEntry.entryType = t, PayChainCBEntry.publicKey = pk,
            PayChainCBEntry.credits = cr, PayChainCBEntry.EntryHash = eh,
            ChainIDHash = ch, EntryChainIDHash = ech, PayChainCBEntry.Sig = sg\<rparr>)))))))))"

section \<open>CBlock\<close>

text \<open>
  A value of the interface type \<^verbatim>\<open>CBEntry\<close> is one of the three entry structs; the
  \<^verbatim>\<open>nil\<close> interface is \<open>None\<close>.
\<close>

datatype CBEntry = Buy BuyCBEntry | PayChain PayChainCBEntry | PayEntry PayEntryCBEntry

datatype CBEntryKind = BuyKind | PayChainKind | PayEntryKind

record CBlock =
  Header :: CBlockHeader
  CBEntries :: "CBEntry list"

text \<open>
  \<^verbatim>\<open>make([]CBEntry, count)\<close>: a slice of \<^verbatim>\<open>count\<close> slots, each \<^verbatim>\<open>nil\<close>. The run time
  panics (\<^verbatim>\<open>makeslice: len out of range\<close>) when \<^verbatim>\<open>count\<close> is more than it can
  allocate. That limit depends on the platform and is the parameter \<open>maxLen\<close>. A slice
  length is an \<^verbatim>\<open>int\<close>, so a count of \<open>2\<^sup>6\<^sup>3\<close> or more panics on every platform.
\<close>

definition make_CBEntries :: "nat \<Rightarrow> 64 word \<Rightarrow> panic + CBEntryKind option list" where
  "make_CBEntries maxLen count =
     (if maxLen < unat count \<or> 2 ^ 63 \<le> unat count then Inl MakeSliceLenOutOfRange
      else Inr (replicate (unat count) None))"

text \<open>
  The \<^verbatim>\<open>if\<close> chain on \<^verbatim>\<open>data[0]\<close> in the loop of \<^verbatim>\<open>CBlock.UnmarshalBinary\<close>:
  the struct that \<^verbatim>\<open>b.CBEntries[i]\<close> is set to. The chain has no final \<^verbatim>\<open>else\<close>,
  so for any other type byte the slot keeps what it held, the \<^verbatim>\<open>nil\<close> that \<^verbatim>\<open>make\<close>
  put there.
\<close>

definition entrySlot :: "byte \<Rightarrow> CBEntryKind option \<Rightarrow> CBEntryKind option" where
  "entrySlot t slot =
     (if t = TYPE_BUY then Some BuyKind
      else if t = TYPE_PAY_CHAIN then Some PayChainKind
      else if t = TYPE_PAY_ENTRY then Some PayEntryKind
      else slot)"

text \<open>\<^verbatim>\<open>b.CBEntries[i].UnmarshalBinary(data)\<close>: a method call on the slot.\<close>

definition CBEntry_UnmarshalBinary :: "CBEntryKind option \<Rightarrow> byte list \<Rightarrow> panic + CBEntry" where
  "CBEntry_UnmarshalBinary slot data =
     (case slot of
        None \<Rightarrow> Inl NilDereference
      | Some BuyKind \<Rightarrow> bindP (BuyCBEntry_UnmarshalBinary data) (\<lambda>e. Inr (Buy e))
      | Some PayChainKind \<Rightarrow> bindP (PayChainCBEntry_UnmarshalBinary data) (\<lambda>e. Inr (PayChain e))
      | Some PayEntryKind \<Rightarrow> bindP (PayEntryCBEntry_UnmarshalBinary data) (\<lambda>e. Inr (PayEntry e)))"

definition CBEntry_MarshalBinary :: "CBEntry \<Rightarrow> panic + byte list" where
  "CBEntry_MarshalBinary e =
     (case e of Buy x \<Rightarrow> BuyCBEntry_MarshalBinary x
      | PayChain x \<Rightarrow> PayChainCBEntry_MarshalBinary x
      | PayEntry x \<Rightarrow> PayEntryCBEntry_MarshalBinary x)"

definition CBEntry_MarshalledSize :: "CBEntry \<Rightarrow> panic + nat" where
  "CBEntry_MarshalledSize e =
     (case e of Buy x \<Rightarrow> BuyCBEntry_MarshalledSize x
      | PayChain x \<Rightarrow> PayChainCBEntry_MarshalledSize x
      | PayEntry x \<Rightarrow> PayEntryCBEntry_MarshalledSize x)"

text \<open>
  The loop \<^verbatim>\<open>for i := uint64(0); i < count; i++\<close> of \<^verbatim>\<open>CBlock.UnmarshalBinary\<close>,
  by recursion on the slots \<^verbatim>\<open>b.CBEntries[i:]\<close> still to fill. Every entry's
  \<^verbatim>\<open>UnmarshalBinary\<close> returns a \<^verbatim>\<open>nil\<close> error, so the \<^verbatim>\<open>return\<close> under
  \<^verbatim>\<open>if err != nil\<close> is never taken.
\<close>

fun unmarshalCBEntries :: "CBEntryKind option list \<Rightarrow> byte list \<Rightarrow> panic + CBEntry list" where
  "unmarshalCBEntries [] data = Inr []"
| "unmarshalCBEntries (slot # slots) data =
     bindP (index0 data) (\<lambda>t.
     bindP (CBEntry_UnmarshalBinary (entrySlot t slot) data) (\<lambda>e.
     bindP (CBEntry_MarshalledSize e) (\<lambda>sz.
     bindP (sliceFrom sz data) (\<lambda>rest.
     bindP (unmarshalCBEntries slots rest) (\<lambda>es. Inr (e # es))))))"

definition CBlock_UnmarshalBinary :: "nat \<Rightarrow> byte list \<Rightarrow> panic + CBlock" where
  "CBlock_UnmarshalBinary maxLen data =
     bindP (CBlockHeader_UnmarshalBinary data) (\<lambda>h.
     bindP (CBlockHeader_MarshalledSize h) (\<lambda>n.
     bindP (sliceFrom n data) (\<lambda>data1.
     bindP (readUint64 data1) (\<lambda>(count, data2).
     bindP (make_CBEntries maxLen count) (\<lambda>slots.
     bindP (unmarshalCBEntries slots data2) (\<lambda>es.
       Inr \<lparr>Header = h, CBEntries = es\<rparr>))))))"

section \<open>The server: peers, federate servers, leader policy\<close>

text \<open>
  Modelled from the spec: the role of a peer, \<^verbatim>\<open>wire.NodeState\<close>, whose declaration is
  not among the sources; the spec lists
  \<open>nodeState \<in> {Candidate, Follower, LeaderElect, Leader, LeaderPrev}\<close>.
\<close>

datatype NodeState = NodeCandidate | NodeFollower | NodeLeaderElect | NodeLeader | NodeLeaderPrev

text \<open>
  Modelled from the spec: the fields of \<^verbatim>\<open>peer\<close> that the functions of the server file
  read and write; the struct is declared in a file that is not among the sources. A
  \<^verbatim>\<open>*peer\<close> is an address of the store \<open>peers\<close> of the server record, so that two
  places holding the same pointer see the same role.
\<close>

record peer =
  nodeID :: string
  nodeType :: string
  addr :: string
  na :: string
  nodeState :: NodeState
  inbound :: bool
  persistent :: bool
  retryCount :: nat

type_synonym peer_ref = nat

record leaderPolicy =
  NextLeader :: "peer_ref option"
  StartDBHeight :: "32 word"
  Term :: "32 word"
  NotifyDBHeight :: "32 word"
  Notified :: bool
  Confirmed :: bool

record federateServer =
  Peer :: peer_ref
  StartTime :: int
  FirstJoined :: "32 word"
  FirstAsFollower :: "32 word"
  LastSuccessVote :: "32 word"
  LeaderLast :: "32 word"

text \<open>
  Modelled from the spec: the two leader messages of the \<^verbatim>\<open>wire\<close> package,
  \<open>NextLeader{currentID, nextID, startHeight, sig}\<close> and
  \<open>CurrentLeader{deadID, newID, sourceID, height, sig}\<close>, as
  \<^verbatim>\<open>wire.NewNextLeaderMsg\<close> and \<^verbatim>\<open>wire.NewCurrentLeaderMsg\<close> build them.
\<close>

datatype Message =
  NextLeaderMsg string string "32 word" string
| CurrentLeaderMsg string string string "32 word" string

text \<open>
  The fields of \<^verbatim>\<open>server\<close> that the modelled functions use. \<open>privKey\<close> is the
  signing function of the server's key, \<^verbatim>\<open>s.privKey.Sign\<close>. \<open>broadcast\<close> is the
  list of messages sent on the channel \<^verbatim>\<open>s.broadcast\<close>, oldest first. The record also
  carries the store of peers with its next free address, the process-wide variables
  \<^verbatim>\<open>leaderCrashed\<close>, \<^verbatim>\<open>prevConnected\<close> and \<^verbatim>\<open>cfg.MaxPeers\<close>, and what the calls
  \<^verbatim>\<open>p.Shutdown()\<close>, \<^verbatim>\<open>p.Start()\<close> and \<^verbatim>\<open>resetLeaderState()\<close> leave behind: the
  peers shut down and started, in order, and the number of resets.
\<close>

record server =
  nodeType :: string
  nodeID :: string
  privKey :: "string \<Rightarrow> string"
  shutdown :: int
  federateServers :: "federateServer list"
  myLeaderPolicy :: "leaderPolicy option"
  broadcast :: "Message list"
  peers :: "peer_ref \<Rightarrow> peer"
  nextRef :: peer_ref
  leaderCrashed :: bool
  resetLeaderStateCalls :: nat
  prevConnected :: int
  MaxPeers :: int
  shutdownCalls :: "peer_ref list"
  startCalls :: "peer_ref list"

definition defaultLeaderTerm :: "32 word" where "defaultLeaderTerm = 2"
definition defaultNotifyDBHeight :: "32 word" where "defaultNotifyDBHeight = 1"

text \<open>
  \<^verbatim>\<open>common.SERVER_NODE\<close>, a string constant of a file that is not among the sources;
  no property below depends on its value.
\<close>

definition SERVER_NODE :: string where "SERVER_NODE = ''SERVER''"

section \<open>Role queries and role mutators\<close>

text \<open>The loops of \<^verbatim>\<open>GetPeer\<close>, \<^verbatim>\<open>GetPeerByID\<close> and \<^verbatim>\<open>GetFederateServerByID\<close>
  return at the first federate server that matches; \<open>None\<close> is \<^verbatim>\<open>nil\<close>.\<close>

definition GetPeer :: "server \<Rightarrow> NodeState \<Rightarrow> peer_ref option" where
  "GetPeer s ns =
     map_option Peer (find (\<lambda>fs. nodeState (peers s (Peer fs)) = ns) (federateServers s))"

definition GetPeerByID :: "server \<Rightarrow> string \<Rightarrow> peer_ref option" where
  "GetPeerByID s pid =
     map_option Peer (find (\<lambda>fs. peer.nodeID (peers s (Peer fs)) = pid) (federateServers s))"

definition GetLeaderElect :: "server \<Rightarrow> peer_ref option" where
  "GetLeaderElect s = GetPeer s NodeLeaderElect"

definition GetLeaderPeer :: "server \<Rightarrow> peer_ref option" where
  "GetLeaderPeer s = GetPeer s NodeLeader"

definition GetPrevLeaderPeer :: "server \<Rightarrow> peer_ref option" where
  "GetPrevLeaderPeer s = GetPeer s NodeLeaderPrev"

definition GetFederateServerByID :: "server \<Rightarrow> string \<Rightarrow> federateServer option" where
  "GetFederateServerByID s pid =
     find (\<lambda>fs. peer.nodeID (peers s (Peer fs)) = pid) (federateServers s)"

definition GetMyFederateServer :: "server \<Rightarrow> federateServer option" where
  "GetMyFederateServer s = GetFederateServerByID s (server.nodeID s)"

text \<open>The assignment \<^verbatim>\<open>p.nodeState = ns\<close> through the pointer \<open>p\<close>.\<close>

definition setNodeState :: "peer_ref \<Rightarrow> NodeState \<Rightarrow> server \<Rightarrow> server" where
  "setNodeState p ns s = s\<lparr>peers := (peers s)(p := (peers s p)\<lparr>nodeState := ns\<rparr>)\<rparr>"

definition SetLeaderPeer :: "peer_ref \<Rightarrow> server \<Rightarrow> server" where
  "SetLeaderPeer p s =
     (let s1 = (case GetLeaderPeer s of None \<Rightarrow> s
                | Some q \<Rightarrow> setNodeState q NodeLeaderPrev s)
      in setNodeState p NodeLeader s1)"

definition SetLeaderPeerByID :: "string \<Rightarrow> server \<Rightarrow> server" where
  "SetLeaderPeerByID pid s =
     (let s1 = (case GetLeaderPeer s of None \<Rightarrow> s
                | Some q \<Rightarrow> setNodeState q NodeLeaderPrev s)
      in case GetPeerByID s1 pid of None \<Rightarrow> s1
         | Some q \<Rightarrow> setNodeState q NodeLeader s1)"

definition setLeaderElect :: "peer_ref \<Rightarrow> server \<Rightarrow> server" where
  "setLeaderElect p s =
     (let s1 = (case GetPeer s NodeLeaderElect of None \<Rightarrow> s
                | Some q \<Rightarrow> setNodeState q NodeFollower s)
      in setNodeState p NodeLeaderElect s1)"

definition setLeaderElectByID :: "string \<Rightarrow> server \<Rightarrow> server" where
  "setLeaderElectByID pid s =
     (let s1 = (case GetPeer s NodeLeaderElect of None \<Rightarrow> s
                | Some q \<Rightarrow> setNodeState q NodeFollower s)
      in case GetPeerByID s1 pid of None \<Rightarrow> s1
         | Some q \<Rightarrow> setNodeState q NodeLeaderElect s1)"

definition SetPrevLeaderPeer :: "peer_ref \<Rightarrow> server \<Rightarrow> server" where
  "SetPrevLeaderPeer p s =
     (let s1 = (case GetPeer s NodeLeaderPrev of None \<Rightarrow> s
                | Some q \<Rightarrow> setNodeState q NodeFollower s)
      in setNodeState p NodeLeaderPrev s1)"

definition SetPrevLeaderByID :: "string \<Rightarrow> server \<Rightarrow> server" where
  "SetPrevLeaderByID pid s =
     (let s1 = (case GetPeer s NodeLeaderPrev of None \<Rightarrow> s
                | Some q \<Rightarrow> setNodeState q NodeFollower s)
      in case GetPeerByID s1 pid of None \<Rightarrow> s1
         | Some q \<Rightarrow> setNodeState q NodeLeaderPrev s1)"

text \<open>
  \<^verbatim>\<open>s.GetMyFederateServer().Peer\<close>: a nil dereference when this node has no entry in
  the roster. The five queries read the role of that peer.
\<close>

definition myPeer :: "server \<Rightarrow> panic + peer" where
  "myPeer s =
     (case GetMyFederateServer s of None \<Rightarrow> Inl NilDereference
      | Some fs \<Rightarrow> Inr (peers s (Peer fs)))"

definition IsCandidate :: "server \<Rightarrow> panic + bool" where
  "IsCandidate s = bindP (myPeer s) (\<lambda>p. Inr (nodeState p = NodeCandidate))"

definition IsFollower :: "server \<Rightarrow> panic + bool" where
  "IsFollower s = bindP (myPeer s) (\<lambda>p. Inr (nodeState p = NodeFollower
     \<or> nodeState p = NodeLeaderElect \<or> nodeState p = NodeLeaderPrev))"

definition IsLeaderElect :: "server \<Rightarrow> panic + bool" where
  "IsLeaderElect s = bindP (myPeer s) (\<lambda>p. Inr (nodeState p = NodeLeaderElect))"

definition IsLeader :: "server \<Rightarrow> panic + bool" where
  "IsLeader s = bindP (myPeer s) (\<lambda>p. Inr (nodeState p = NodeLeader))"

definition IsPrevLeader :: "server \<Rightarrow> panic + bool" where
  "IsPrevLeader s = bindP (myPeer s) (\<lambda>p. Inr (nodeState p = NodeLeaderPrev))"

definition FederateServerCount :: "server \<Rightarrow> nat" where
  "FederateServerCount s =
     (if server.nodeType s = SERVER_NODE then length (federateServers s) else 0)"

text \<open>
  Modelled from the spec: \<^verbatim>\<open>peer.IsCandidate\<close>, a method of the file that declares
  \<^verbatim>\<open>peer\<close>: the peer's role is \<open>Candidate\<close>.
\<close>

definition peer_IsCandidate :: "peer \<Rightarrow> bool" where
  "peer_IsCandidate p = (nodeState p = NodeCandidate)"

text \<open>The pair \<open>(fservers, candidates)\<close>, each in the order of the roster.\<close>

definition nonCandidateServers :: "server \<Rightarrow> federateServer list \<times> federateServer list" where
  "nonCandidateServers s =
     (filter (\<lambda>fs. \<not> peer_IsCandidate (peers s (Peer fs))) (federateServers s),
      filter (\<lambda>fs. peer_IsCandidate (peers s (Peer fs))) (federateServers s))"

definition NonCandidateServerCount :: "server \<Rightarrow> nat" where
  "NonCandidateServerCount s =
     (if server.nodeType s = SERVER_NODE then length (fst (nonCandidateServers s)) else 0)"

definition isSingleServerMode :: "server \<Rightarrow> bool" where
  "isSingleServerMode s = (FederateServerCount s = 1)"

section \<open>The leader machine\<close>

text \<open>\<^verbatim>\<open>strconv.Itoa\<close> of a number that is not negative: its decimal digits.\<close>

fun Itoa :: "nat \<Rightarrow> string" where
  "Itoa n = (if n < 10 then [''0123456789'' ! n]
             else Itoa (n div 10) @ [''0123456789'' ! (n mod 10)])"

text \<open>\<^verbatim>\<open>s.BroadcastMessage(msg)\<close>: the message is sent on the channel.\<close>

definition BroadcastMessage :: "Message \<Rightarrow> server \<Rightarrow> server" where
  "BroadcastMessage msg s = s\<lparr>broadcast := broadcast s @ [msg]\<rparr>"

text \<open>
  \<^verbatim>\<open>sendCurrentLeaderMsg\<close>. \<^verbatim>\<open>int(h)\<close> is taken on a platform whose \<^verbatim>\<open>int\<close> has 64
  bits, where it is \<open>unat h\<close>. \<^verbatim>\<open>resetLeaderState\<close> belongs to the processor; the
  call is counted.
\<close>

definition sendCurrentLeaderMsg ::
    "string \<Rightarrow> string \<Rightarrow> string \<Rightarrow> 32 word \<Rightarrow> server \<Rightarrow> panic + server" where
  "sendCurrentLeaderMsg deadLeader newLeader source h s =
     (let s1 = SetLeaderPeerByID (server.nodeID s) s in
      case GetMyFederateServer s1 of None \<Rightarrow> Inl NilDereference
      | Some fs \<Rightarrow>
         (let policy = \<lparr>NextLeader = Some (Peer fs), StartDBHeight = h,
                         Term = defaultLeaderTerm, NotifyDBHeight = defaultNotifyDBHeight,
                         Notified = False, Confirmed = False\<rparr>;
              s2 = s1\<lparr>myLeaderPolicy := Some policy\<rparr>;
              sig = privKey s2 (deadLeader @ newLeader @ source @ Itoa (unat h));
              msg = CurrentLeaderMsg deadLeader newLeader source h sig;
              s3 = BroadcastMessage msg s2
          in Inr (if leaderCrashed s3
                  then s3\<lparr>resetLeaderStateCalls := resetLeaderStateCalls s3 + 1\<rparr>
                  else s3)))"

text \<open>The \<^verbatim>\<open>Less\<close> of \<^verbatim>\<open>ByLeaderLast\<close> and of \<^verbatim>\<open>ByStartTime\<close>, on the two elements compared.\<close>

definition ByLeaderLast_Less :: "federateServer \<Rightarrow> federateServer \<Rightarrow> bool" where
  "ByLeaderLast_Less a b = (LeaderLast a < LeaderLast b)"

definition ByStartTime_Less :: "federateServer \<Rightarrow> federateServer \<Rightarrow> bool" where
  "ByStartTime_Less a b = (StartTime a < StartTime b)"

text \<open>
  \<^verbatim>\<open>sort.Sort(ByLeaderLast(nonCandidates))\<close> and \<^verbatim>\<open>sort.Sort(ByStartTime(nonCandidates))\<close>
  order a local slice; the roster keeps its order. \<^verbatim>\<open>sort.Sort\<close> belongs to the
  standard library. It leaves the slice a permutation of what it was in which no element
  is \<^verbatim>\<open>Less\<close> than one before it, and it promises no order among elements of which
  neither is \<^verbatim>\<open>Less\<close> than the other: where such elements end up depends on the length
  of the slice and on the version of the library. So \<^verbatim>\<open>sort.Sort\<close> is a parameter
  \<open>Sort\<close> of the functions that call it, given the \<^verbatim>\<open>Less\<close> to sort by, and
  \<open>sortsBy Sort lt\<close> says what the library promises of it.
\<close>

type_synonym sorter =
  "(federateServer \<Rightarrow> federateServer \<Rightarrow> bool) \<Rightarrow> federateServer list \<Rightarrow> federateServer list"

definition sortsBy :: "sorter \<Rightarrow> (federateServer \<Rightarrow> federateServer \<Rightarrow> bool) \<Rightarrow> bool" where
  "sortsBy Sort lt =
     (\<forall>xs. (\<forall>x. count_list (Sort lt xs) x = count_list xs x)
         \<and> sorted_wrt (\<lambda>a b. \<not> lt b a) (Sort lt xs))"

definition selectNextLeader :: "sorter \<Rightarrow> 32 word \<Rightarrow> server \<Rightarrow> panic + server" where
  "selectNextLeader Sort height s =
     bindP (IsLeader s) (\<lambda>isLeader.
       if \<not> isLeader then Inr s
       else
         (let (nonCandidates, candidates) = nonCandidateServers s in
          if length nonCandidates = 1
             \<and> peer.nodeID (peers s (Peer (nonCandidates ! 0))) = server.nodeID s
          then
            (case myLeaderPolicy s of None \<Rightarrow> Inl NilDereference
             | Some P \<Rightarrow> Inr (s\<lparr>myLeaderPolicy := Some (P\<lparr>StartDBHeight := height + 3\<rparr>)\<rparr>))
          else
            (case find (\<lambda>fed. peer.nodeID (peers s (Peer fed)) \<noteq> server.nodeID s)
                    (Sort ByLeaderLast_Less nonCandidates) of
               None \<Rightarrow> Inr s
             | Some next \<Rightarrow>
                (case myLeaderPolicy s of None \<Rightarrow> Inl NilDereference
                 | Some P \<Rightarrow>
                    (let h = StartDBHeight P + Term P;
                         nextID = peer.nodeID (peers s (Peer next));
                         sig = privKey s (server.nodeID s @ nextID);
                         msg = NextLeaderMsg (server.nodeID s) nextID h sig;
                         s1 = BroadcastMessage msg s
                     in Inr (s1\<lparr>myLeaderPolicy := Some (P\<lparr>Notified := True\<rparr>)\<rparr>))))))"

text \<open>The identifier of the leader in the roster, or the empty string.\<close>

definition leaderIDOrEmpty :: "server \<Rightarrow> string" where
  "leaderIDOrEmpty s =
     (case GetLeaderPeer s of None \<Rightarrow> [] | Some prev \<Rightarrow> peer.nodeID (peers s prev))"

definition selectCurrentleader :: "sorter \<Rightarrow> 32 word \<Rightarrow> server \<Rightarrow> panic + server" where
  "selectCurrentleader Sort height s =
     bindP (IsLeader s) (\<lambda>isLeader.
       if isLeader then Inr s
       else
         (let (nonCandidates, candidates) = nonCandidateServers s in
          if length nonCandidates = 0 \<and> length candidates > 0 then Inr s
          else
            bindP (IsCandidate s) (\<lambda>isCandidate.
            bindP (IsLeaderElect s) (\<lambda>isLeaderElect.
              (let onlyFollower = (\<not> isCandidate \<and> length nonCandidates = 1
                     \<and> peer.nodeID (peers s (Peer (nonCandidates ! 0))) = server.nodeID s)
               in
               if isLeaderElect \<or> onlyFollower then
                 sendCurrentLeaderMsg (leaderIDOrEmpty s) (server.nodeID s) (server.nodeID s)
                   (height + 1) s
               else if GetLeaderElect s \<noteq> None then Inr s
               else
                 (case GetPrevLeaderPeer s of
                    Some prev \<Rightarrow>
                      if \<not> isCandidate \<and> peer.nodeID (peers s prev) = server.nodeID s
                      then sendCurrentLeaderMsg (peer.nodeID (peers s prev)) (server.nodeID s)
                             (server.nodeID s) (height + 1) s
                      else Inr s
                  | None \<Rightarrow>
                      (case Sort ByStartTime_Less nonCandidates of
                         [] \<Rightarrow> Inl IndexOutOfRange
                       | first # _ \<Rightarrow>
                           if peer.nodeID (peers s (Peer first)) = server.nodeID s
                           then sendCurrentLeaderMsg (leaderIDOrEmpty s) (server.nodeID s)
                                  (server.nodeID s) (height + 1) s
                           else Inr s)))))))"

text \<open>
  \<^verbatim>\<open>s.GetFederateServerByID(pid).LeaderLast = height\<close>: the first federate server of
  the roster with that identifier gets the new value; a nil dereference when there is
  none.
\<close>

fun setLeaderLastOfFirst ::
    "(federateServer \<Rightarrow> bool) \<Rightarrow> 32 word \<Rightarrow> federateServer list \<Rightarrow> federateServer list option" where
  "setLeaderLastOfFirst P height [] = None"
| "setLeaderLastOfFirst P height (fs # rest) =
     (if P fs then Some (fs\<lparr>LeaderLast := height\<rparr> # rest)
      else map_option ((#) fs) (setLeaderLastOfFirst P height rest))"

definition setLeaderLastByID :: "string \<Rightarrow> 32 word \<Rightarrow> server \<Rightarrow> panic + server" where
  "setLeaderLastByID pid height s =
     (case setLeaderLastOfFirst (\<lambda>fs. peer.nodeID (peers s (Peer fs)) = pid) height
             (federateServers s) of
        None \<Rightarrow> Inl NilDereference
      | Some fss \<Rightarrow> Inr (s\<lparr>federateServers := fss\<rparr>))"

definition handleNextLeader :: "sorter \<Rightarrow> 32 word \<Rightarrow> server \<Rightarrow> panic + server" where
  "handleNextLeader Sort height s =
     bindP (IsLeader s) (\<lambda>isLeader.
     bindP (IsLeaderElect s) (\<lambda>isLeaderElect.
       if \<not> isLeader \<and> \<not> isLeaderElect then Inr s
       else if isSingleServerMode s then
         (case myLeaderPolicy s of None \<Rightarrow> Inl NilDereference
          | Some P \<Rightarrow> Inr (s\<lparr>myLeaderPolicy := Some (P\<lparr>StartDBHeight := height + 1\<rparr>)\<rparr>))
       else if isLeaderElect then
         (case myLeaderPolicy s of None \<Rightarrow> Inl NilDereference
          | Some P \<Rightarrow>
             if height > StartDBHeight P then Inr s
             else if height = StartDBHeight P - 1 then
               (case GetLeaderPeer s of
                  None \<Rightarrow>
                    sendCurrentLeaderMsg [] (server.nodeID s) (server.nodeID s) (height + 1) s
                | Some leader \<Rightarrow>
                    (let leaderID = peer.nodeID (peers s leader) in
                     bindP (setLeaderLastByID leaderID height s) (\<lambda>s1.
                       sendCurrentLeaderMsg leaderID (server.nodeID s1) (server.nodeID s1)
                         (height + 1) s1)))
             else Inr s)
       else
         (case myLeaderPolicy s of None \<Rightarrow> Inl NilDereference
          | Some P \<Rightarrow>
             if height > StartDBHeight P + Term P then Inr s
             else if height = StartDBHeight P + NotifyDBHeight P - 1 then
               selectNextLeader Sort height s
             else if height = StartDBHeight P + Term P - 1 then
               (let s1 = SetPrevLeaderByID (server.nodeID s) s;
                    s2 = (case GetLeaderElect s1 of None \<Rightarrow> s1
                          | Some elect \<Rightarrow> SetLeaderPeer elect s1);
                    s3 = s2\<lparr>myLeaderPolicy := None\<rparr>
                in setLeaderLastByID (server.nodeID s3) height s3)
             else Inr s)))"

declare Itoa.simps [simp del]

section \<open>The peer manager\<close>

text \<open>
  \<^verbatim>\<open>peerState\<close>. A \<^verbatim>\<open>map[*peer]struct{}\<close> is the set of its keys; \<^verbatim>\<open>len\<close> is
  \<open>card\<close>. A \<^verbatim>\<open>time.Time\<close> is a number of nanoseconds. Reading
  \<^verbatim>\<open>outboundGroups\<close> at a key that is not in the map gives 0.
\<close>

record peerState =
  inboundPeers :: "peer_ref set"
  outboundPeers :: "peer_ref set"
  persistentPeers :: "peer_ref set"
  banned :: "string \<rightharpoonup> int"
  outboundGroups :: "string \<Rightarrow> int"
  maxOutboundPeers :: int

definition Count :: "peerState \<Rightarrow> int" where
  "Count st = int (card (inboundPeers st)) + int (card (outboundPeers st))
     + int (card (persistentPeers st))"

definition OutboundCount :: "peerState \<Rightarrow> int" where
  "OutboundCount st = int (card (outboundPeers st)) + int (card (persistentPeers st))"

definition NeedMoreOutbound :: "peerState \<Rightarrow> server \<Rightarrow> bool" where
  "NeedMoreOutbound st s = (OutboundCount st < maxOutboundPeers st \<and> Count st < MaxPeers s)"

text \<open>
  The functions of other packages that the peer manager calls:
  \<^verbatim>\<open>net.SplitHostPort\<close> (\<open>None\<close> when it returns an error),
  \<^verbatim>\<open>addrmgr.GroupKey\<close> and \<^verbatim>\<open>addrmgr.NetAddressKey\<close> on a network address, and the
  default port of the active network.
\<close>

record netenv =
  SplitHostPort :: "string \<Rightarrow> (string \<times> string) option"
  GroupKey :: "string \<Rightarrow> string"
  DefaultPort :: string

text \<open>\<^verbatim>\<open>p.Shutdown()\<close> and \<^verbatim>\<open>p.Start()\<close>: the call is recorded.\<close>

definition peer_Shutdown :: "peer_ref \<Rightarrow> server \<Rightarrow> server" where
  "peer_Shutdown p s = s\<lparr>shutdownCalls := shutdownCalls s @ [p]\<rparr>"

definition peer_Start :: "peer_ref \<Rightarrow> server \<Rightarrow> server" where
  "peer_Start p s = s\<lparr>startCalls := startCalls s @ [p]\<rparr>"

text \<open>
  The loop over \<^verbatim>\<open>s.federateServers\<close> in \<^verbatim>\<open>handleAddPeerMsg\<close>: whether some
  federate server's peer has the address or the identifier of \<open>p\<close>.
\<close>

fun duplicatedPeer :: "(peer_ref \<Rightarrow> peer) \<Rightarrow> peer \<Rightarrow> federateServer list \<Rightarrow> bool" where
  "duplicatedPeer ps p [] = False"
| "duplicatedPeer ps p (fed # rest) =
     (if addr (ps (Peer fed)) = addr p \<or> peer.nodeID (ps (Peer fed)) = peer.nodeID p then True
      else duplicatedPeer ps p rest)"

text \<open>
  \<^verbatim>\<open>handleAddPeerMsg\<close>, with the reading \<open>now\<close> of the clock. The result is the
  returned boolean, the peer state and the server.
\<close>

definition handleAddPeerMsg ::
    "netenv \<Rightarrow> int \<Rightarrow> peerState \<Rightarrow> peer_ref option \<Rightarrow> server \<Rightarrow> bool \<times> peerState \<times> server" where
  "handleAddPeerMsg env now st p' s =
     (case p' of None \<Rightarrow> (False, st, s)
      | Some p \<Rightarrow>
         if shutdown s \<noteq> 0 then (False, st, peer_Shutdown p s)
         else if duplicatedPeer (peers s) (peers s p) (federateServers s)
           then (False, st, peer_Shutdown p s)
         else
           (case SplitHostPort env (addr (peers s p)) of
              None \<Rightarrow> (False, st, peer_Shutdown p s)
            | Some (host, port) \<Rightarrow>
               if (case banned st host of None \<Rightarrow> False | Some banEnd \<Rightarrow> now < banEnd)
               then (False, st, peer_Shutdown p s)
               else
                 (let st1 = st\<lparr>banned := (banned st)(host := None)\<rparr>;
                      peerCount = Count st1;
                      s1 = (if prevConnected s \<noteq> peerCount
                            then s\<lparr>prevConnected := peerCount\<rparr> else s)
                  in
                  if Count st1 \<ge> MaxPeers s1 then (False, st1, peer_Shutdown p s1)
                  else if inbound (peers s1 p)
                    then (True, st1\<lparr>inboundPeers := insert p (inboundPeers st1)\<rparr>,
                          peer_Start p s1)
                  else
                    (let key = GroupKey env (na (peers s1 p));
                         st2 = st1\<lparr>outboundGroups :=
                                 (outboundGroups st1)(key := outboundGroups st1 key + 1)\<rparr>
                     in
                     if persistent (peers s1 p)
                     then (True, st2\<lparr>persistentPeers := insert p (persistentPeers st2)\<rparr>, s1)
                     else (True, st2\<lparr>outboundPeers := insert p (outboundPeers st2)\<rparr>, s1)))))"

text \<open>
  Modelled from the spec: \<^verbatim>\<open>newOutboundPeer\<close>, a function of the file that declares
  \<^verbatim>\<open>peer\<close>. The outbound dialer creates a peer for the address, outbound, persistent
  or not, with the retry count given; it has no identifier and no role before its
  handshake. The peer is put at the next free address of the store.
\<close>

definition newOutboundPeer :: "string \<Rightarrow> bool \<Rightarrow> nat \<Rightarrow> server \<Rightarrow> peer_ref \<times> server" where
  "newOutboundPeer a pers retry s =
     (nextRef s,
      s\<lparr>peers := (peers s)(nextRef s :=
           \<lparr>peer.nodeID = [], peer.nodeType = [], addr = a, na = a, nodeState = NodeCandidate,
            inbound = False, persistent = pers, retryCount = retry\<rparr>),
        nextRef := nextRef s + 1\<rparr>)"

text \<open>
  An answer of \<^verbatim>\<open>s.addrManager.GetAddress("any")\<close>: the network address as
  \<^verbatim>\<open>addrmgr.NetAddressKey\<close> prints it, its port, and the time of the last attempt to
  connect to it.
\<close>

record knownAddress =
  NetAddress :: string
  Port :: nat
  LastAttempt :: int

definition tenMinutes :: int where
  "tenMinutes = 10 * 60 * 1000000000"

text \<open>
  The loop of \<^verbatim>\<open>peerHandler\<close> that replenishes the outbound peers, from
  \<^verbatim>\<open>tries := 0\<close>. The answers of the address manager are a list; when it is used up
  \<^verbatim>\<open>GetAddress\<close> returns \<^verbatim>\<open>nil\<close> and the loop breaks. \<open>now\<close> is the reading of
  the clock during the loop.
\<close>

fun outboundLoop ::
    "netenv \<Rightarrow> int \<Rightarrow> knownAddress list \<Rightarrow> int \<Rightarrow> peerState \<Rightarrow> server \<Rightarrow> peerState \<times> server" where
  "outboundLoop env now [] tries st s = (st, s)"
| "outboundLoop env now (a # rest) tries st s =
     (if \<not> (NeedMoreOutbound st s \<and> shutdown s = 0) then (st, s)
      else if outboundGroups st (GroupKey env (NetAddress a)) \<noteq> 0 then (st, s)
      else
        (let tries1 = tries + 1 in
         if tries1 > 100 then (st, s)
         else if now > LastAttempt a + tenMinutes \<and> tries1 < 30
           then outboundLoop env now rest tries1 st s
         else if Itoa (Port a) \<noteq> DefaultPort env \<and> tries1 < 50
           then outboundLoop env now rest tries1 st s
         else
           (let (p, s1) = newOutboundPeer (NetAddress a) False 0 s;
                (ok, st1, s2) = handleAddPeerMsg env now st (Some p) s1
            in outboundLoop env now rest 0 st1 s2)))"

section \<open>Views of the roster used in the properties\<close>

text \<open>The peers of the roster that hold a role, each once, and whether they are at most one.\<close>

definition holders :: "server \<Rightarrow> NodeState \<Rightarrow> peer_ref list" where
  "holders s ns =
     remdups (map Peer (filter (\<lambda>fs. nodeState (peers s (Peer fs)) = ns) (federateServers s)))"

definition atMostOne :: "server \<Rightarrow> NodeState \<Rightarrow> bool" where
  "atMostOne s ns = (length (holders s ns) \<le> 1)"

definition rolesUnique :: "server \<Rightarrow> bool" where
  "rolesUnique s = (atMostOne s NodeLeader \<and> atMostOne s NodeLeaderElect \<and> atMostOne s NodeLeaderPrev)"

text \<open>The node identifiers of the roster, in its order.\<close>

definition rosterIDs :: "server \<Rightarrow> string list" where
  "rosterIDs s = map (\<lambda>fs. peer.nodeID (peers s (Peer fs))) (federateServers s)"

section \<open>Values used in the examples of the server\<close>

text \<open>
  The rosters of the examples have at most three entries. On a slice of fewer than seven
  elements \<^verbatim>\<open>sort.Sort\<close> runs its insertion sort alone:
  \<^verbatim>\<open>for i := a + 1; i < b; i++ { for j := i; j > a && data.Less(j, j-1); j-- { data.Swap(j, j-1) } }\<close>.
  \<open>moveLeft lt x prefix\<close> is the inner loop: \<open>prefix\<close> holds the elements before
  \<open>x\<close>, the nearest first, and \<open>x\<close> moves past each one it is \<^verbatim>\<open>Less\<close> than until it
  meets one it is not.
\<close>

fun moveLeft :: "('a \<Rightarrow> 'a \<Rightarrow> bool) \<Rightarrow> 'a \<Rightarrow> 'a list \<Rightarrow> 'a list" where
  "moveLeft lt x [] = [x]"
| "moveLeft lt x (y # ys) = (if lt x y then y # moveLeft lt x ys else x # y # ys)"

definition insertionSort :: "('a \<Rightarrow> 'a \<Rightarrow> bool) \<Rightarrow> 'a list \<Rightarrow> 'a list" where
  "insertionSort lt xs = rev (foldl (\<lambda>prefix x. moveLeft lt x prefix) [] xs)"

definition mkPeer :: "string \<Rightarrow> NodeState \<Rightarrow> peer" where
  "mkPeer n st = \<lparr>peer.nodeID = n, peer.nodeType = SERVER_NODE, addr = n @ '':8108'', na = n,
     nodeState = st, inbound = True, persistent = False, retryCount = 0\<rparr>"

definition mkFed :: "peer_ref \<Rightarrow> int \<Rightarrow> 32 word \<Rightarrow> federateServer" where
  "mkFed r start leaderLast = \<lparr>Peer = r, StartTime = start, FirstJoined = 0, FirstAsFollower = 0,
     LastSuccessVote = 0, LeaderLast = leaderLast\<rparr>"

definition mkServer ::
    "string \<Rightarrow> federateServer list \<Rightarrow> (peer_ref \<Rightarrow> peer) \<Rightarrow> leaderPolicy option \<Rightarrow> server" where
  "mkServer n feds ps pol = \<lparr>server.nodeType = SERVER_NODE, server.nodeID = n,
     privKey = (\<lambda>m. ''signed:'' @ m), shutdown = 0, federateServers = feds,
     myLeaderPolicy = pol, broadcast = [], peers = ps, nextRef = 10, leaderCrashed = False,
     resetLeaderStateCalls = 0, prevConnected = 0, MaxPeers = 125, shutdownCalls = [],
     startCalls = []\<rparr>"

definition mkPolicy :: "32 word \<Rightarrow> 32 word \<Rightarrow> 32 word \<Rightarrow> leaderPolicy" where
  "mkPolicy start trm notify = \<lparr>NextLeader = Some 0, StartDBHeight = start, Term = trm,
     NotifyDBHeight = notify, Notified = False, Confirmed = False\<rparr>"

text \<open>Three federate servers: A is the Leader, B the previous leader, C a follower.\<close>

definition rosterABC :: server where
  "rosterABC = mkServer ''A'' [mkFed 0 100 5, mkFed 1 200 3, mkFed 2 300 0]
     ((\<lambda>r. mkPeer ''A'' NodeLeader)(1 := mkPeer ''B'' NodeLeaderPrev, 2 := mkPeer ''C'' NodeFollower))
     (Some (mkPolicy 2 2 1))"

definition exampleEnv :: netenv where
  "exampleEnv = \<lparr>SplitHostPort = (\<lambda>a. if CHR '':'' \<in> set a
       then Some (takeWhile (\<lambda>c. c \<noteq> CHR '':'') a, tl (dropWhile (\<lambda>c. c \<noteq> CHR '':'') a))
       else None),
     GroupKey = (\<lambda>a. takeWhile (\<lambda>c. c \<noteq> CHR '':'') a), DefaultPort = ''8108''\<rparr>"

definition emptyPeerState :: peerState where
  "emptyPeerState = \<lparr>inboundPeers = {}, outboundPeers = {}, persistentPeers = {},
     banned = Map.empty, outboundGroups = (\<lambda>k. 0), maxOutboundPeers = 8\<rparr>"

text \<open>A peer at address 4 of the store, from a host that is banned until time 2000.\<close>

definition bannedServer :: server where
  "bannedServer = rosterABC\<lparr>peers := (peers rosterABC)(4 := mkPeer ''D'' NodeCandidate)\<rparr>"

definition bannedState :: peerState where
  "bannedState = emptyPeerState\<lparr>inboundPeers := {1, 2}, banned := [''D'' \<mapsto> 2000]\<rparr>"

text \<open>Two roster entries with the identifier of this node.\<close>

definition rosterAA :: server where
  "rosterAA = mkServer ''A'' [mkFed 0 100 5, mkFed 1 200 3]
     ((\<lambda>r. mkPeer ''A'' NodeLeader)(1 := mkPeer ''A'' NodeFollower))
     (Some (mkPolicy 2 2 1))"

text \<open>The roster of \<open>rosterABC\<close> with a policy whose notification height is its term.\<close>

definition rosterNotifyIsTerm :: server where
  "rosterNotifyIsTerm = rosterABC\<lparr>myLeaderPolicy := Some (mkPolicy 2 1 1)\<rparr>"

text \<open>A is the Leader, B the LeaderElect, C a follower; the node is A.\<close>

definition rosterHandOff :: server where
  "rosterHandOff = mkServer ''A'' [mkFed 0 100 1, mkFed 1 200 0, mkFed 2 300 0]
     ((\<lambda>r. mkPeer ''A'' NodeLeader)(1 := mkPeer ''B'' NodeLeaderElect, 2 := mkPeer ''C'' NodeFollower))
     (Some (mkPolicy 2 2 1))"

text \<open>The node is C, a follower of \<open>rosterABC\<close>.\<close>

definition rosterAsC :: server where
  "rosterAsC = rosterABC\<lparr>server.nodeID := ''C''\<rparr>"

text \<open>A is the Leader and the node; K is a candidate.\<close>

definition rosterAK :: server where
  "rosterAK = mkServer ''A'' [mkFed 0 100 1, mkFed 1 200 0]
     ((\<lambda>r. mkPeer ''A'' NodeLeader)(1 := mkPeer ''K'' NodeCandidate))
     (Some (mkPolicy 2 2 1))"

text \<open>The candidate K alone, after the leader was removed; and K beside a follower F.\<close>

definition rosterK :: server where
  "rosterK = mkServer ''K'' [mkFed 1 200 0] (\<lambda>r. mkPeer ''K'' NodeCandidate) None"

definition rosterFK :: server where
  "rosterFK = mkServer ''K'' [mkFed 0 100 0, mkFed 1 200 0]
     ((\<lambda>r. mkPeer ''F'' NodeFollower)(1 := mkPeer ''K'' NodeCandidate)) None"

text \<open>Two answers of the address manager: one tried 100 seconds before the clock
  reading \<open>1000 s\<close>, one tried 1000 seconds before it.\<close>

definition recentAddress :: knownAddress where
  "recentAddress = \<lparr>NetAddress = ''10.0.0.7:8108'', Port = 8108, LastAttempt = 900000000000\<rparr>"

definition oldAddress :: knownAddress where
  "oldAddress = \<lparr>NetAddress = ''10.0.0.8:8108'', Port = 8108, LastAttempt = 0\<rparr>"

section \<open>Values used in the examples of the codec\<close>

text \<open>The 33 bytes that a hash field with a 32-byte digest is written as.\<close>

definition hashWire :: "Hash option \<Rightarrow> byte list" where
  "hashWire h = (case h of None \<Rightarrow> [] | Some x \<Rightarrow> of_nat (length (Bytes x)) # Bytes x)"

definition zeroHash :: "Hash option" where
  "zeroHash = Some (Hash (replicate 32 0))"

definition sampleHash :: "Hash option" where
  "sampleHash = Some (Hash (replicate 32 171))"

definition sampleHeader :: CBlockHeader where
  "sampleHeader = \<lparr>ChainID = sampleHash, BodyHash = zeroHash, PrevKeyMR = sampleHash,
     PrevHash = zeroHash, DBHeight = 7, SegmentsMR = zeroHash, BalanceMR = sampleHash,
     BodySize = 1024\<rparr>"

definition sampleBuy :: BuyCBEntry where
  "sampleBuy = \<lparr>BuyCBEntry.entryType = TYPE_BUY, BuyCBEntry.publicKey = sampleHash,
     BuyCBEntry.credits = 100, FactomTxHash = zeroHash\<rparr>"

definition samplePayEntry :: PayEntryCBEntry where
  "samplePayEntry = \<lparr>PayEntryCBEntry.entryType = TYPE_PAY_ENTRY,
     PayEntryCBEntry.publicKey = sampleHash, PayEntryCBEntry.credits = - 1,
     PayEntryCBEntry.EntryHash = zeroHash, TimeStamp = 1420070400,
     PayEntryCBEntry.Sig = [1, 2, 3]\<rparr>"

definition samplePayChain :: PayChainCBEntry where
  "samplePayChain = \<lparr>PayChainCBEntry.entryType = TYPE_PAY_CHAIN,
     PayChainCBEntry.publicKey = sampleHash, PayChainCBEntry.credits = - 10,
     PayChainCBEntry.EntryHash = zeroHash, ChainIDHash = sampleHash,
     EntryChainIDHash = zeroHash, PayChainCBEntry.Sig = [9, 8]\<rparr>"

definition sampleCBInfo :: CBInfo where
  "sampleCBInfo = \<lparr>CBHash = sampleHash, FBHash = zeroHash, FBBlockNum = 42,
     ChainID = sampleHash\<rparr>"

text \<open>A pay-entry whose signature is \<open>2\<^sup>3\<^sup>2\<close> bytes long.\<close>

definition longSigEntry :: PayEntryCBEntry where
  "longSigEntry = \<lparr>PayEntryCBEntry.entryType = TYPE_PAY_ENTRY,
     PayEntryCBEntry.publicKey = zeroHash, PayEntryCBEntry.credits = 1,
     PayEntryCBEntry.EntryHash = zeroHash, TimeStamp = 0,
     PayEntryCBEntry.Sig = replicate (2 ^ 32) 0\<rparr>"

text \<open>
  The 219 bytes of a block whose header has six zero digests, height 0 and body size
  0, whose entry count is 1 and whose only entry starts with the type byte
  \<^verbatim>\<open>TYPE_SERVER_INDEX\<close>.
\<close>

definition nilEntryInput :: "byte list" where
  "nilEntryInput =
     hashWire zeroHash @ hashWire zeroHash @ hashWire zeroHash @ hashWire zeroHash
     @ PutUint32 0 @ hashWire zeroHash @ hashWire zeroHash @ PutUint64 0
     @ PutUint64 1 @ [TYPE_SERVER_INDEX]"

definition zeroHeader :: CBlockHeader where
  "zeroHeader = \<lparr>ChainID = zeroHash, BodyHash = zeroHash, PrevKeyMR = zeroHash,
     PrevHash = zeroHash, DBHeight = 0, SegmentsMR = zeroHash, BalanceMR = zeroHash,
     BodySize = 0\<rparr>"

section \<open>The RESTful admin handler\<close>

text \<open>
  Modelled from the spec: the entry and the block of the package \<^verbatim>\<open>NotaryChain/data\<close>,
  which is not among the sources. The spec gives
  \<open>Block {blockID:u64, previousHash:opt<hash>, entries:[Entry], salt:bytes}\<close> and
  \<open>Entry {entryType, structuredData:bytes, signatures:[\<dots>], timeStamp:i64}\<close>.
\<close>

record PlainEntry =
  entryType :: int
  structuredData :: "8 word list"
  signatures :: "8 word list list"
  timeStamp :: int

record Block =
  blockID :: "64 word"
  previousHash :: "8 word list option"
  entries :: "PlainEntry list"
  salt :: "8 word list"

text \<open>
  Modelled from the spec: \<^verbatim>\<open>Block.AddEntry\<close>, a method of the same package: the entry
  is appended to the entries of the block. The spec names no condition under which the
  block reports an error, so the model reports none; \<open>Inl\<close> is the error.
\<close>

definition AddEntry :: "PlainEntry \<Rightarrow> Block \<Rightarrow> string + Block" where
  "AddEntry e b = Inr (b\<lparr>entries := entries b @ [e]\<rparr>)"

text \<open>
  Modelled from the spec: the structured error \<open>{errorCode, httpCode, message}\<close> and
  \<^verbatim>\<open>createError\<close>, declared in a file that is not among the sources. The HTTP status
  is drawn from the error kind: 405 for an unsupported method, 404 for an unknown path,
  400 for a body that does not parse, 500 for a failure to serialise and for an internal
  error.
\<close>

datatype errorKind = errorBadMethod | errorNotFound | errorUnsupportedMarshal
  | errorUnsupportedUnmarshal | errorJSONMarshal | errorJSONUnmarshal | errorXMLMarshal
  | errorXMLUnmarshal | errorInternal

record restError =
  ErrorCode :: errorKind
  HTTPCode :: nat
  Message :: string

fun httpCodeOf :: "errorKind \<Rightarrow> nat" where
  "httpCodeOf errorBadMethod = 405"
| "httpCodeOf errorNotFound = 404"
| "httpCodeOf errorUnsupportedUnmarshal = 400"
| "httpCodeOf errorJSONUnmarshal = 400"
| "httpCodeOf errorXMLUnmarshal = 400"
| "httpCodeOf errorUnsupportedMarshal = 500"
| "httpCodeOf errorJSONMarshal = 500"
| "httpCodeOf errorXMLMarshal = 500"
| "httpCodeOf errorInternal = 500"

definition createError :: "errorKind \<Rightarrow> string \<Rightarrow> restError" where
  "createError k m = \<lparr>ErrorCode = k, HTTPCode = httpCodeOf k, Message = m\<rparr>"

text \<open>
  A value of type \<^verbatim>\<open>interface{}\<close> that the handler holds in \<^verbatim>\<open>resource\<close> or passes
  to \<^verbatim>\<open>marshal\<close>: \<^verbatim>\<open>nil\<close>, a pointer to an entry, to a block or to an error, or a
  value of another type, of which only the name of the type is kept.
\<close>

datatype resource = ResNil | ResEntry PlainEntry | ResBlock Block | ResError restError
  | ResOther string

text \<open>
  The functions of \<^verbatim>\<open>encoding/json\<close> and \<^verbatim>\<open>encoding/xml\<close> that the handler calls
  (\<open>Inl\<close> is the text of the error returned), and the two parts of the HTML page that
  \<^verbatim>\<open>marshal\<close> puts around the JSON text.
\<close>

record encoding =
  jsonUnmarshal :: "string \<Rightarrow> PlainEntry \<Rightarrow> string + PlainEntry"
  xmlUnmarshal :: "string \<Rightarrow> PlainEntry \<Rightarrow> string + PlainEntry"
  jsonMarshal :: "resource \<Rightarrow> string + string"
  jsonMarshalIndent :: "resource \<Rightarrow> string + string"
  xmlMarshal :: "resource \<Rightarrow> string + string"
  htmlPrefix :: string
  htmlSuffix :: string

text \<open>\<^verbatim>\<open>url.Values\<close> and its method \<^verbatim>\<open>Get\<close>: the first value of the key, or the empty
  string.\<close>

type_synonym Values = "string \<rightharpoonup> string list"

definition Get :: "Values \<Rightarrow> string \<Rightarrow> string" where
  "Get v k = (case v k of None \<Rightarrow> [] | Some [] \<Rightarrow> [] | Some (x # _) \<Rightarrow> x)"

text \<open>\<^verbatim>\<open>new(ncdata.PlainEntry)\<close>: the zero value.\<close>

definition newPlainEntry :: PlainEntry where
  "newPlainEntry = \<lparr>entryType = 0, structuredData = [], signatures = [], timeStamp = 0\<rparr>"

text \<open>
  \<^verbatim>\<open>post\<close>. The block is reached through a pointer, so the resource as the call
  leaves it is part of the result, after the value returned and the error (\<open>None\<close> is
  \<^verbatim>\<open>nil\<close>). \<open>now\<close> is \<^verbatim>\<open>time.Now().Unix()\<close>. \<^verbatim>\<open>newEntry\<close> comes from
  \<^verbatim>\<open>new\<close> and is never \<^verbatim>\<open>nil\<close>.
\<close>

definition post ::
    "encoding \<Rightarrow> int \<Rightarrow> string \<Rightarrow> resource \<Rightarrow> Values
      \<Rightarrow> panic + (resource \<times> restError option \<times> resource)" where
  "post enc now context res form =
     (case res of
        ResNil \<Rightarrow> Inl NilDereference
      | ResEntry e \<Rightarrow>
          Inr (ResNil, Some (createError errorBadMethod
                 (''POST is not supported on type '' @ ''data.PlainEntry'')), res)
      | ResError e \<Rightarrow>
          Inr (ResNil, Some (createError errorBadMethod
                 (''POST is not supported on type '' @ ''main.restError'')), res)
      | ResOther t \<Rightarrow>
          Inr (ResNil, Some (createError errorBadMethod
                 (''POST is not supported on type '' @ t)), res)
      | ResBlock b \<Rightarrow>
          (let format = Get form ''format''; data = Get form ''data'';
               parsed =
                 (if format = [] \<or> format = ''json'' then
                    (case jsonUnmarshal enc data newPlainEntry of
                       Inl err \<Rightarrow> Inl (createError errorJSONUnmarshal err)
                     | Inr e \<Rightarrow> Inr e)
                  else if format = ''xml'' then
                    (case xmlUnmarshal enc data newPlainEntry of
                       Inl err \<Rightarrow> Inl (createError errorXMLUnmarshal err)
                     | Inr e \<Rightarrow> Inr e)
                  else Inl (createError errorUnsupportedUnmarshal
                         (''The format '' @ [CHR 0x22] @ format @ [CHR 0x22]
                          @ '' is not supported'')))
           in case parsed of
                Inl e \<Rightarrow> Inr (ResNil, Some e, res)
              | Inr newEntry0 \<Rightarrow>
                  (let newEntry = newEntry0\<lparr>timeStamp := now\<rparr> in
                   case AddEntry newEntry b of
                     Inl err \<Rightarrow>
                       Inr (ResNil, Some (createError errorInternal
                              (''Error while adding Entity to Block: '' @ err)), res)
                   | Inr b' \<Rightarrow> Inr (ResEntry newEntry, None, ResBlock b'))))"

text \<open>
  \<^verbatim>\<open>marshal\<close>: the data and the error. \<^verbatim>\<open>panic(err)\<close> is the panic \<open>PanicCalled\<close>.
\<close>

definition marshalWith ::
    "(resource \<Rightarrow> string + string) \<Rightarrow> errorKind \<Rightarrow> resource
      \<Rightarrow> panic + (string \<times> restError option)" where
  "marshalWith m k res =
     (case m res of
        Inr data \<Rightarrow> Inr (data, None)
      | Inl err \<Rightarrow>
          (let r = createError k err in
           case m (ResError r) of
             Inl err2 \<Rightarrow> Inl PanicCalled
           | Inr data \<Rightarrow> Inr (data, Some r)))"

definition marshal :: "encoding \<Rightarrow> resource \<Rightarrow> string \<Rightarrow> panic + (string \<times> restError option)" where
  "marshal enc res accept =
     (if accept = ''text'' then marshalWith (jsonMarshalIndent enc) errorJSONMarshal res
      else if accept = ''json'' then marshalWith (jsonMarshal enc) errorJSONMarshal res
      else if accept = ''xml'' then marshalWith (xmlMarshal enc) errorXMLMarshal res
      else if accept = ''html'' then
        bindP (marshalWith (jsonMarshal enc) errorJSONMarshal res) (\<lambda>(data, r).
          case r of
            Some e \<Rightarrow> Inr ([], Some e)
          | None \<Rightarrow> Inr (htmlPrefix enc @ data @ htmlSuffix enc, None))
      else
        (let r = createError errorUnsupportedMarshal
                   ([CHR 0x22] @ accept @ [CHR 0x22] @ '' is an unsupported marshalling format'')
         in case jsonMarshal enc (ResError r) of
              Inl err \<Rightarrow> Inl PanicCalled
            | Inr data \<Rightarrow> Inr (data, Some r)))"

text \<open>
  What \<^verbatim>\<open>parse\<close> returns for a request; \<^verbatim>\<open>parse\<close> is not among the sources. What
  the handler writes: the content type, the status (200 unless \<^verbatim>\<open>WriteHeader\<close> is
  called) and the body.
\<close>

record request =
  path :: "string list"
  httpMethod :: string
  accept :: string
  form :: Values
  parseError :: "restError option"

record response =
  contentType :: "string option"
  status :: nat
  body :: string

definition contentTypeOf :: "string \<Rightarrow> string option" where
  "contentTypeOf a =
     (if a = ''text'' then Some ''text/plain; charset=utf-8''
      else if a = ''json'' then Some ''application/json; charset=utf-8''
      else if a = ''xml'' then Some ''application/xml; charset=utf-8''
      else if a = ''html'' then Some ''text/html; charset=utf-8''
      else None)"

text \<open>
  The deferred function of \<^verbatim>\<open>serveRESTfulHTTP\<close>, run with the values of \<^verbatim>\<open>data\<close>
  and \<^verbatim>\<open>err\<close> at the return.
\<close>

definition writeResponse ::
    "encoding \<Rightarrow> string \<Rightarrow> string \<Rightarrow> restError option \<Rightarrow> panic + response" where
  "writeResponse enc a data err =
     (case err of
        None \<Rightarrow> Inr \<lparr>contentType = contentTypeOf a, status = 200,
                       body = data @ [CHR 0x0A, CHR 0x0A]\<rparr>
      | Some e \<Rightarrow>
          bindP (marshal enc (ResError e) a) (\<lambda>(data', r).
            Inr \<lparr>contentType = contentTypeOf a,
                 status = HTTPCode (case r of None \<Rightarrow> e | Some e' \<Rightarrow> e'),
                 body = data' @ [CHR 0x0A, CHR 0x0A]\<rparr>))"

text \<open>\<^verbatim>\<open>"/" + strings.Join(path, "/")\<close>.\<close>

fun Join :: "string list \<Rightarrow> string \<Rightarrow> string" where
  "Join [] sep = []"
| "Join [x] sep = x"
| "Join (x # y # rest) sep = x @ sep @ Join (y # rest) sep"

text \<open>
  \<^verbatim>\<open>serveRESTfulHTTP\<close>, from the values that \<^verbatim>\<open>parse\<close> returned. \<open>findResource\<close> is the
  function \<^verbatim>\<open>find\<close> of a file that is not among the sources. The list of blocks is
  the global \<^verbatim>\<open>blocks\<close>; the result is the response and the blocks after the request.
  \<^verbatim>\<open>blocks[len(blocks) - 1]\<close> panics when there is no block.
\<close>

definition serveRESTfulHTTP ::
    "encoding \<Rightarrow> (Block list \<Rightarrow> string list \<Rightarrow> resource \<times> restError option) \<Rightarrow> int
      \<Rightarrow> Block list \<Rightarrow> request \<Rightarrow> panic + (response \<times> Block list)" where
  "serveRESTfulHTTP enc findResource now blocks req =
     (if httpMethod req = ''GET'' then
        (let (res, err) = findResource blocks (path req) in
         bindP (marshal enc res (accept req)) (\<lambda>(data, err').
         bindP (writeResponse enc (accept req) data err') (\<lambda>w. Inr (w, blocks))))
      else if httpMethod req = ''POST'' then
        (if length (path req) \<noteq> 1 then
           bindP (writeResponse enc (accept req) []
                    (Some (createError errorBadMethod
                       ''POST can only be used in the root context: /v1'')))
             (\<lambda>w. Inr (w, blocks))
         else if blocks = [] then Inl IndexOutOfRange
         else
           bindP (post enc now (''/'' @ Join (path req) ''/'') (ResBlock (last blocks))
                    (form req)) (\<lambda>(res, err, tip).
             (let blocks' = (case tip of ResBlock b \<Rightarrow> butlast blocks @ [b] | _ \<Rightarrow> blocks) in
              bindP (marshal enc res (accept req)) (\<lambda>(data, err').
              bindP (writeResponse enc (accept req) data err') (\<lambda>w. Inr (w, blocks'))))))
      else
        bindP (writeResponse enc (accept req) []
                 (Some (createError errorBadMethod
                    (''The HTTP '' @ httpMethod req @ '' method is not supported''))))
          (\<lambda>w. Inr (w, blocks)))"

section \<open>Values used in the examples of the handler\<close>

definition exampleBlock0 :: Block where
  "exampleBlock0 = \<lparr>blockID = 0, previousHash = None, entries = [], salt = replicate 32 0\<rparr>"

definition exampleBlock1 :: Block where
  "exampleBlock1 = \<lparr>blockID = 1, previousHash = Some (replicate 32 44),
     entries = [\<lparr>entryType = 0, structuredData = [16, 17, 18, 19], signatures = [],
                  timeStamp = 0\<rparr>],
     salt = replicate 32 28\<rparr>"

definition postedEntry :: PlainEntry where
  "postedEntry = \<lparr>entryType = 2, structuredData = [1, 2, 3], signatures = [], timeStamp = 0\<rparr>"

text \<open>
  An encoding for the examples. As \<^verbatim>\<open>json.Marshal\<close> does, it writes \<^verbatim>\<open>nil\<close> as
  \<open>null\<close>; it reads one text as \<open>postedEntry\<close> and fails on any other.
\<close>

definition exampleEncoding :: encoding where
  "exampleEncoding = \<lparr>
     jsonUnmarshal = (\<lambda>d e. if d = ''{entry}'' then Inr postedEntry
                             else Inl ''invalid character''),
     xmlUnmarshal = (\<lambda>d e. if d = ''<entry/>'' then Inr postedEntry else Inl ''EOF''),
     jsonMarshal = (\<lambda>r. case r of ResNil \<Rightarrow> Inr ''null'' | ResEntry e \<Rightarrow> Inr ''{entry}''
                           | ResBlock b \<Rightarrow> Inr ''{block}'' | ResError e \<Rightarrow> Inr ''{error}''
                           | ResOther t \<Rightarrow> Inl ''unsupported type''),
     jsonMarshalIndent = (\<lambda>r. case r of ResNil \<Rightarrow> Inr ''null'' | ResEntry e \<Rightarrow> Inr ''{entry}''
                           | ResBlock b \<Rightarrow> Inr ''{block}'' | ResError e \<Rightarrow> Inr ''{error}''
                           | ResOther t \<Rightarrow> Inl ''unsupported type''),
     xmlMarshal = (\<lambda>r. case r of ResNil \<Rightarrow> Inr [] | ResEntry e \<Rightarrow> Inr ''<entry/>''
                           | ResBlock b \<Rightarrow> Inr ''<block/>'' | ResError e \<Rightarrow> Inr ''<error/>''
                           | ResOther t \<Rightarrow> Inl ''unsupported type''),
     htmlPrefix = ''<script>'', htmlSuffix = ''</body>''\<rparr>"

definition yamlRequest :: request where
  "yamlRequest = \<lparr>path = [''v1''], httpMethod = ''POST'', accept = ''json'',
     form = [''format'' \<mapsto> [''yaml''], ''data'' \<mapsto> [''{entry}'']], parseError = None\<rparr>"

definition jsonRequest :: request where
  "jsonRequest = \<lparr>path = [''v1''], httpMethod = ''POST'', accept = ''json'',
     form = [''format'' \<mapsto> [''json''], ''data'' \<mapsto> [''{entry}'']], parseError = None\<rparr>"

chapter \<open>Properties\<close>

section \<open>randomUint16Number: the rejection region\<close>

lemma limitRange_unat:
  fixes m :: "16 word"
  shows "unat ((65535 div m) * m) = (65535 div unat m) * unat m"
proof -
  have a: "unat (65535 div m) = 65535 div unat m"
    by (simp add: unat_div)
  have le: "(65535 div unat m) * unat m \<le> 65535"
    by (rule div_times_less_eq_dividend)
  have "unat ((65535 div m) * m) = (unat (65535 div m) * unat m) mod 2 ^ LENGTH(16)"
    by (rule unat_word_ariths(2))
  also have "\<dots> = ((65535 div unat m) * unat m) mod 65536"
    by (simp add: a)
  also from le have "\<dots> = (65535 div unat m) * unat m"
    by (intro mod_less) linarith
  finally show ?thesis .
qed

text \<open>
  Claim C7, as stated, puts the threshold at \<open>\<lfloor>65536/max\<rfloor>\<cdot>max\<close>. The code divides
  \<^verbatim>\<open>math.MaxUint16\<close> = 65535. For \<open>max = 2\<close> the sample 65534 is below the stated
  threshold 65536, yet the code rejects it and goes on to the next sample: with samples
  \<open>[65534, 1]\<close> the result is \<open>1\<close>, not \<open>65534 mod 2 = 0\<close>.
\<close>

theorem randomUint16Number_threshold_65536_counterexample:
  "unat (65534 :: 16 word) < (65536 div unat (2 :: 16 word)) * unat (2 :: 16 word)
   \<and> randomUint16Number 2 [65534, 1] = Inr (Some 1)
   \<and> (65534 :: 16 word) mod 2 \<noteq> 1"
  by (simp add: randomUint16Number_def)

text \<open>
  Claim C7, amended: for every \<open>max\<close> in \<open>[1, 65535]\<close> the rejection region of
  \<^verbatim>\<open>randomUint16Number\<close> is exactly the 16-bit samples \<open>v\<close> with
  \<open>v \<ge> \<lfloor>65535/max\<rfloor>\<cdot>max\<close>: a sample below that threshold is accepted and
  \<open>v mod max\<close> is returned, a sample at or above it is rejected and the next one is drawn.
\<close>

theorem randomUint16Number_rejection_region:
  assumes "mx \<noteq> 0"
  shows "randomUint16Number mx (v # rest) =
     (if unat v < (65535 div unat mx) * unat mx then Inr (Some (v mod mx))
      else randomUint16Number mx rest)
   \<and> unat (v mod mx) = unat v mod unat mx"
  using assms
  by (simp add: randomUint16Number_def word_less_nat_alt limitRange_unat unat_mod)

theorem randomUint16Number_rejection_region_witness:
  "(1800 :: 16 word) \<noteq> 0
   \<and> randomUint16Number 1800 [64800, 64799] = Inr (Some 1799)
   \<and> unat ((64799 :: 16 word) mod 1800) = 1799"
  using randomUint16Number_rejection_region [of 1800 64800 "[64799]"]
    randomUint16Number_rejection_region [of 1800 64799 "[]"]
  by simp

text \<open>
  The two thresholds differ only when \<open>max\<close> divides 65536, that is, when \<open>max\<close> is a
  power of two.
\<close>

lemma threshold_65535_eq_65536:
  fixes n :: nat
  assumes "\<not> n dvd 65536"
  shows "65535 div n = 65536 div n"
proof -
  have s: "Suc 65535 = 65536"
    by simp
  have "Suc 65535 mod n \<noteq> 0"
    using assms unfolding s by (simp add: dvd_eq_mod_eq_0)
  then have "Suc 65535 div n = 65535 div n"
    by (simp only: div_Suc if_False)
  then show ?thesis
    unfolding s by simp
qed

section \<open>The codec: big-endian integers and hashes\<close>

lemma bindP_Inr [simp]: "bindP (Inr a) f = f a"
  by (simp add: bindP_def)

lemma bindP_Inl [simp]: "bindP (Inl p) f = Inl p"
  by (simp add: bindP_def)

lemma bindP_eq_Inr: "bindP m f = Inr y \<longleftrightarrow> (\<exists>a. m = Inr a \<and> f a = Inr y)"
  by (cases m) auto

lemma length_be_bytes [simp]: "length (be_bytes k v) = k"
  by (induction k) auto

lemma unat_byte_of_nat: "unat (of_nat n :: byte) = n mod 256"
  by (simp add: unat_of_nat)

lemma foldl_be_bytes:
  "foldl (\<lambda>a x. a * 256 + unat x) a (be_bytes k v) = a * 256 ^ k + v mod 256 ^ k"
proof (induction k arbitrary: a)
  case 0
  then show ?case by simp
next
  case (Suc k)
  have split: "v mod (256 ^ k * 256) = 256 ^ k * (v div 256 ^ k mod 256) + v mod 256 ^ k"
    by (rule mod_mult2_eq)
  have "foldl (\<lambda>a x. a * 256 + unat x) a (be_bytes (Suc k) v)
      = (a * 256 + v div 256 ^ k mod 256) * 256 ^ k + v mod 256 ^ k"
    by (simp only: be_bytes.simps foldl_Cons Suc.IH unat_byte_of_nat)
  also have "\<dots> = a * 256 ^ Suc k + (256 ^ k * (v div 256 ^ k mod 256) + v mod 256 ^ k)"
    by (simp add: algebra_simps)
  also have "\<dots> = a * 256 ^ Suc k + v mod 256 ^ Suc k"
    by (simp only: split power_Suc2)
  finally show ?case .
qed

lemma be_nat_be_bytes: "be_nat (be_bytes k v) = v mod 256 ^ k"
  by (simp add: be_nat_def foldl_be_bytes)

lemma Uint32_PutUint32 [simp]: "Uint32 (PutUint32 v) = v"
proof -
  have p: "(256::nat) ^ 4 = 2 ^ LENGTH(32)"
    by simp
  have "unat v mod 256 ^ 4 = unat v"
    unfolding p by (rule mod_less) (rule unsigned_less)
  then show ?thesis
    by (simp only: Uint32_def PutUint32_def be_nat_be_bytes of_nat_unat ucast_id)
qed

lemma Uint64_PutUint64 [simp]: "Uint64 (PutUint64 v) = v"
proof -
  have p: "(256::nat) ^ 8 = 2 ^ LENGTH(64)"
    by simp
  have "unat v mod 256 ^ 8 = unat v"
    unfolding p by (rule mod_less) (rule unsigned_less)
  then show ?thesis
    by (simp only: Uint64_def PutUint64_def be_nat_be_bytes of_nat_unat ucast_id)
qed

lemma length_PutUint32 [simp]: "length (PutUint32 v) = 4"
  by (simp add: PutUint32_def)

lemma length_PutUint64 [simp]: "length (PutUint64 v) = 8"
  by (simp add: PutUint64_def)

lemma readUint32_PutUint32 [simp]: "readUint32 (PutUint32 v @ rest) = Inr (v, rest)"
  by (simp add: readUint32_def sliceTo_def sliceFrom_def)

lemma readUint64_PutUint64 [simp]: "readUint64 (PutUint64 v @ rest) = Inr (v, rest)"
  by (simp add: readUint64_def sliceTo_def sliceFrom_def)

lemma unat_of_nat_len32: "n < 2 ^ 32 \<Longrightarrow> unat (of_nat n :: 32 word) = n"
  by (simp add: unat_of_nat)

lemma Hash_MarshalBinary_valid [simp]:
  "validHash h \<Longrightarrow> Hash_MarshalBinary h = Inr (hashWire h)"
  by (simp add: validHash_def Hash_MarshalBinary_def hashWire_def split: option.splits)

lemma length_hashWire [simp]: "validHash h \<Longrightarrow> length (hashWire h) = 33"
  by (simp add: validHash_def hashWire_def split: option.splits)

lemma Hash_UnmarshalBinary_hashWire_append [simp]:
  "validHash h \<Longrightarrow> Hash_UnmarshalBinary (hashWire h @ rest) = Inr h"
  by (cases h) (auto simp: validHash_def hashWire_def Hash_UnmarshalBinary_def)

lemma Hash_UnmarshalBinary_hashWire [simp]:
  "validHash h \<Longrightarrow> Hash_UnmarshalBinary (hashWire h) = Inr h"
  using Hash_UnmarshalBinary_hashWire_append [of h "[]"] by simp

lemma Hash_MarshalledSize_valid [simp]: "validHash h \<Longrightarrow> Hash_MarshalledSize h = Inr 33"
  by (simp add: validHash_def Hash_MarshalledSize_def split: option.splits)

lemma readHash_hashWire [simp]:
  "validHash h \<Longrightarrow> readHash (hashWire h @ rest) = Inr (h, rest)"
  by (simp add: readHash_def sliceFrom_def)

lemma validHash_zeroHash [simp]: "validHash zeroHash"
  by (simp add: validHash_def zeroHash_def)

lemma validHash_sampleHash [simp]: "validHash sampleHash"
  by (simp add: validHash_def sampleHash_def)

section \<open>The codec: marshalling followed by unmarshalling\<close>

lemma CBInfo_roundtrip:
  assumes "validHash (CBHash b)" "validHash (FBHash b)" "validHash (CBInfo.ChainID b)"
  shows "bindP (CBInfo_MarshalBinary b) CBInfo_UnmarshalBinary = Inr b"
  using assms
  by (simp add: CBInfo_MarshalBinary_def CBInfo_UnmarshalBinary_def sliceTo_def sliceFrom_def)

lemma CBlockHeader_roundtrip_append:
  assumes "validHash (CBlockHeader.ChainID b)" "validHash (BodyHash b)"
    "validHash (PrevKeyMR b)" "validHash (PrevHash b)" "validHash (SegmentsMR b)"
    "validHash (BalanceMR b)"
  shows "bindP (CBlockHeader_MarshalBinary b) (\<lambda>d. CBlockHeader_UnmarshalBinary (d @ rest))
    = Inr b"
  using assms
  by (simp add: CBlockHeader_MarshalBinary_def CBlockHeader_UnmarshalBinary_def)

lemma CBlockHeader_roundtrip:
  assumes "validHash (CBlockHeader.ChainID b)" "validHash (BodyHash b)"
    "validHash (PrevKeyMR b)" "validHash (PrevHash b)" "validHash (SegmentsMR b)"
    "validHash (BalanceMR b)"
  shows "bindP (CBlockHeader_MarshalBinary b) CBlockHeader_UnmarshalBinary = Inr b"
  using CBlockHeader_roundtrip_append [OF assms, of "[]"] by simp

lemma BuyCBEntry_roundtrip_append:
  assumes "validHash (BuyCBEntry.publicKey e)" "validHash (FactomTxHash e)"
  shows "bindP (BuyCBEntry_MarshalBinary e) (\<lambda>d. BuyCBEntry_UnmarshalBinary (d @ rest)) = Inr e"
  using assms
  by (simp add: BuyCBEntry_MarshalBinary_def BuyCBEntry_UnmarshalBinary_def index0_def
      sliceFrom_def)

lemma BuyCBEntry_roundtrip:
  assumes "validHash (BuyCBEntry.publicKey e)" "validHash (FactomTxHash e)"
  shows "bindP (BuyCBEntry_MarshalBinary e) BuyCBEntry_UnmarshalBinary = Inr e"
  using BuyCBEntry_roundtrip_append [OF assms, of "[]"] by simp

lemma PayEntryCBEntry_roundtrip:
  assumes "validHash (PayEntryCBEntry.publicKey e)" "validHash (PayEntryCBEntry.EntryHash e)"
    "length (PayEntryCBEntry.Sig e) < 2 ^ 32"
  shows "bindP (PayEntryCBEntry_MarshalBinary e) PayEntryCBEntry_UnmarshalBinary = Inr e"
  using assms
  by (simp add: PayEntryCBEntry_MarshalBinary_def PayEntryCBEntry_UnmarshalBinary_def
      index0_def sliceFrom_def sliceTo_def unat_of_nat_len32)

lemma PayChainCBEntry_roundtrip:
  assumes "validHash (PayChainCBEntry.publicKey e)" "validHash (PayChainCBEntry.EntryHash e)"
    "validHash (ChainIDHash e)" "validHash (EntryChainIDHash e)"
    "length (PayChainCBEntry.Sig e) < 2 ^ 32"
  shows "bindP (PayChainCBEntry_MarshalBinary e) PayChainCBEntry_UnmarshalBinary = Inr e"
  using assms
  by (simp add: PayChainCBEntry_MarshalBinary_def PayChainCBEntry_UnmarshalBinary_def
      index0_def sliceFrom_def sliceTo_def unat_of_nat_len32)

text \<open>
  Claim C8, as stated, asks only that the hash fields be valid. The signature of a
  pay-entry is written after its length as a \<^verbatim>\<open>uint32\<close>: a signature of \<open>2\<^sup>3\<^sup>2\<close>
  bytes is written with length 0 and read back empty.
\<close>

theorem PayEntryCBEntry_roundtrip_long_sig_counterexample:
  "validHash (PayEntryCBEntry.publicKey longSigEntry)
   \<and> validHash (PayEntryCBEntry.EntryHash longSigEntry)
   \<and> bindP (PayEntryCBEntry_MarshalBinary longSigEntry) PayEntryCBEntry_UnmarshalBinary
       = Inr (longSigEntry\<lparr>PayEntryCBEntry.Sig := []\<rparr>)
   \<and> longSigEntry\<lparr>PayEntryCBEntry.Sig := []\<rparr> \<noteq> longSigEntry"
proof -
  have z: "(of_nat (2 ^ 32) :: 32 word) = 0"
    by simp
  have ne: "replicate (2 ^ 32) (0::byte) \<noteq> []"
    by simp
  show ?thesis
    using ne
    by (simp add: longSigEntry_def PayEntryCBEntry_MarshalBinary_def
        PayEntryCBEntry_UnmarshalBinary_def index0_def sliceFrom_def sliceTo_def z)
qed

text \<open>
  Claim C8, amended: for every \<^verbatim>\<open>CBlockHeader\<close>, \<^verbatim>\<open>BuyCBEntry\<close>,
  \<^verbatim>\<open>PayEntryCBEntry\<close>, \<^verbatim>\<open>PayChainCBEntry\<close> and \<^verbatim>\<open>CBInfo\<close> whose hash fields are
  valid (not \<^verbatim>\<open>nil\<close>, 32 bytes of digest, 33 bytes serialised) and whose signature,
  where it has one, is shorter than \<open>2\<^sup>3\<^sup>2\<close> bytes, \<^verbatim>\<open>UnmarshalBinary\<close> applied to the
  output of \<^verbatim>\<open>MarshalBinary\<close> gives back a value equal to it in every field.
\<close>

theorem marshal_unmarshal_roundtrip:
  "(validHash (CBlockHeader.ChainID hdr) \<and> validHash (BodyHash hdr) \<and> validHash (PrevKeyMR hdr)
      \<and> validHash (PrevHash hdr) \<and> validHash (SegmentsMR hdr) \<and> validHash (BalanceMR hdr)
     \<longrightarrow> bindP (CBlockHeader_MarshalBinary hdr) CBlockHeader_UnmarshalBinary = Inr hdr)
   \<and> (validHash (BuyCBEntry.publicKey bu) \<and> validHash (FactomTxHash bu)
     \<longrightarrow> bindP (BuyCBEntry_MarshalBinary bu) BuyCBEntry_UnmarshalBinary = Inr bu)
   \<and> (validHash (PayEntryCBEntry.publicKey pe) \<and> validHash (PayEntryCBEntry.EntryHash pe)
      \<and> length (PayEntryCBEntry.Sig pe) < 2 ^ 32
     \<longrightarrow> bindP (PayEntryCBEntry_MarshalBinary pe) PayEntryCBEntry_UnmarshalBinary = Inr pe)
   \<and> (validHash (PayChainCBEntry.publicKey pc) \<and> validHash (PayChainCBEntry.EntryHash pc)
      \<and> validHash (ChainIDHash pc) \<and> validHash (EntryChainIDHash pc)
      \<and> length (PayChainCBEntry.Sig pc) < 2 ^ 32
     \<longrightarrow> bindP (PayChainCBEntry_MarshalBinary pc) PayChainCBEntry_UnmarshalBinary = Inr pc)
   \<and> (validHash (CBHash ci) \<and> validHash (FBHash ci) \<and> validHash (CBInfo.ChainID ci)
     \<longrightarrow> bindP (CBInfo_MarshalBinary ci) CBInfo_UnmarshalBinary = Inr ci)"
  by (simp add: CBlockHeader_roundtrip BuyCBEntry_roundtrip PayEntryCBEntry_roundtrip
      PayChainCBEntry_roundtrip CBInfo_roundtrip)

theorem marshal_unmarshal_roundtrip_witness:
  "validHash sampleHash \<and> validHash zeroHash
   \<and> length (PayEntryCBEntry.Sig samplePayEntry) < 2 ^ 32
   \<and> length (PayChainCBEntry.Sig samplePayChain) < 2 ^ 32
   \<and> bindP (CBlockHeader_MarshalBinary sampleHeader) CBlockHeader_UnmarshalBinary
       = Inr sampleHeader
   \<and> bindP (BuyCBEntry_MarshalBinary sampleBuy) BuyCBEntry_UnmarshalBinary = Inr sampleBuy
   \<and> bindP (PayEntryCBEntry_MarshalBinary samplePayEntry) PayEntryCBEntry_UnmarshalBinary
       = Inr samplePayEntry
   \<and> bindP (PayChainCBEntry_MarshalBinary samplePayChain) PayChainCBEntry_UnmarshalBinary
       = Inr samplePayChain
   \<and> bindP (CBInfo_MarshalBinary sampleCBInfo) CBInfo_UnmarshalBinary = Inr sampleCBInfo"
proof -
  have v: "validHash (CBlockHeader.ChainID sampleHeader)" "validHash (BodyHash sampleHeader)"
    "validHash (PrevKeyMR sampleHeader)" "validHash (PrevHash sampleHeader)"
    "validHash (SegmentsMR sampleHeader)" "validHash (BalanceMR sampleHeader)"
    "validHash (BuyCBEntry.publicKey sampleBuy)" "validHash (FactomTxHash sampleBuy)"
    "validHash (PayEntryCBEntry.publicKey samplePayEntry)"
    "validHash (PayEntryCBEntry.EntryHash samplePayEntry)"
    "validHash (PayChainCBEntry.publicKey samplePayChain)"
    "validHash (PayChainCBEntry.EntryHash samplePayChain)"
    "validHash (ChainIDHash samplePayChain)" "validHash (EntryChainIDHash samplePayChain)"
    "validHash (CBHash sampleCBInfo)" "validHash (FBHash sampleCBInfo)"
    "validHash (CBInfo.ChainID sampleCBInfo)"
    by (simp_all add: sampleHeader_def sampleBuy_def samplePayEntry_def samplePayChain_def
        sampleCBInfo_def)
  have l: "length (PayEntryCBEntry.Sig samplePayEntry) < 2 ^ 32"
    "length (PayChainCBEntry.Sig samplePayChain) < 2 ^ 32"
    by (simp_all add: samplePayEntry_def samplePayChain_def)
  show ?thesis
    using marshal_unmarshal_roundtrip
      [of sampleHeader sampleBuy samplePayEntry samplePayChain sampleCBInfo] v l
    by simp
qed

section \<open>CBlock.UnmarshalBinary on an unknown entry type\<close>

lemma readHash_Inr:
  assumes "readHash data = Inr (x, r)"
  shows "Hash_MarshalledSize x = Inr 33 \<and> r = drop 33 data \<and> 33 \<le> length data"
  using assms
  by (auto simp: readHash_def Hash_UnmarshalBinary_def Hash_MarshalledSize_def sliceFrom_def
      split: if_splits)

lemma readUint32_Inr:
  assumes "readUint32 data = Inr (v, r)"
  shows "r = drop 4 data \<and> 4 \<le> length data \<and> v = Uint32 (take 4 data)"
  using assms
  by (auto simp: readUint32_def sliceFrom_def sliceTo_def split: if_splits)

lemma readUint64_Inr:
  assumes "readUint64 data = Inr (v, r)"
  shows "r = drop 8 data \<and> 8 \<le> length data \<and> v = Uint64 (take 8 data)"
  using assms
  by (auto simp: readUint64_def sliceFrom_def sliceTo_def split: if_splits)

lemma CBlockHeader_UnmarshalBinary_size:
  assumes "CBlockHeader_UnmarshalBinary data = Inr h"
  shows "CBlockHeader_MarshalledSize h = Inr 210 \<and> 210 \<le> length data"
  using assms
  unfolding CBlockHeader_UnmarshalBinary_def CBlockHeader_MarshalledSize_def
  by (auto simp: bindP_eq_Inr dest!: readHash_Inr readUint32_Inr readUint64_Inr)

text \<open>
  A count that \<^verbatim>\<open>make\<close> cannot allocate: the panic comes before any slot is read.
\<close>

lemma CBlock_UnmarshalBinary_count_beyond_limit:
  assumes "CBlockHeader_UnmarshalBinary data = Inr h"
    and "218 \<le> length data"
    and "maxLen < unat (Uint64 (take 8 (drop 210 data)))
         \<or> 2 ^ 63 \<le> unat (Uint64 (take 8 (drop 210 data)))"
  shows "CBlock_UnmarshalBinary maxLen data = Inl MakeSliceLenOutOfRange"
proof -
  from assms(1) have sz: "CBlockHeader_MarshalledSize h = Inr 210"
    by (simp add: CBlockHeader_UnmarshalBinary_size)
  show ?thesis
    using assms sz
    by (auto simp: CBlock_UnmarshalBinary_def sliceFrom_def readUint64_def sliceTo_def
        make_CBEntries_def)
qed

text \<open>
  Claim C10: \<^verbatim>\<open>CBlock.UnmarshalBinary\<close> is not total. For an input whose header parses,
  whose entry count is not zero and is a length that \<^verbatim>\<open>make\<close> allocates, and whose
  first entry starts with a type byte other than \<^verbatim>\<open>TYPE_BUY\<close>, \<^verbatim>\<open>TYPE_PAY_CHAIN\<close> and
  \<^verbatim>\<open>TYPE_PAY_ENTRY\<close>, the entry slot stays \<^verbatim>\<open>nil\<close> and the call of
  \<^verbatim>\<open>UnmarshalBinary\<close> on it panics with a nil dereference; no error value is returned.
\<close>

theorem CBlock_UnmarshalBinary_unknown_type_panics:
  assumes "CBlockHeader_UnmarshalBinary data = Inr h"
    and "218 < length data"
    and "Uint64 (take 8 (drop 210 data)) \<noteq> 0"
    and "unat (Uint64 (take 8 (drop 210 data))) \<le> maxLen"
    and "unat (Uint64 (take 8 (drop 210 data))) < 2 ^ 63"
    and "data ! 218 \<noteq> TYPE_BUY" "data ! 218 \<noteq> TYPE_PAY_CHAIN" "data ! 218 \<noteq> TYPE_PAY_ENTRY"
  shows "CBlock_UnmarshalBinary maxLen data = Inl NilDereference"
proof -
  from assms(1) have sz: "CBlockHeader_MarshalledSize h = Inr 210"
    by (simp add: CBlockHeader_UnmarshalBinary_size)
  obtain n where n: "unat (Uint64 (take 8 (drop 210 data))) = Suc n"
    using assms(3) by (metis not0_implies_Suc unat_eq_0)
  have mk: "make_CBEntries maxLen (Uint64 (take 8 (drop 210 data))) = Inr (None # replicate n None)"
    using assms(4,5) n by (simp add: make_CBEntries_def)
  obtain t rest where d: "drop 218 data = t # rest" and t: "t = data ! 218"
    using assms(2) by (metis Cons_nth_drop_Suc)
  have slot: "entrySlot t None = None"
    using assms(6-8) t by (simp add: entrySlot_def)
  show ?thesis
    using assms(1,2) sz mk d slot
    by (simp add: CBlock_UnmarshalBinary_def sliceFrom_def readUint64_def sliceTo_def
        index0_def CBEntry_UnmarshalBinary_def)
qed

lemma CBlockHeader_UnmarshalBinary_nilEntryInput:
  "CBlockHeader_UnmarshalBinary nilEntryInput = Inr zeroHeader"
  by (simp add: nilEntryInput_def zeroHeader_def CBlockHeader_UnmarshalBinary_def)

theorem CBlock_UnmarshalBinary_unknown_type_panics_witness:
  "CBlockHeader_UnmarshalBinary nilEntryInput = Inr zeroHeader
   \<and> length nilEntryInput = 219
   \<and> Uint64 (take 8 (drop 210 nilEntryInput)) = 1
   \<and> nilEntryInput ! 218 = TYPE_SERVER_INDEX
   \<and> CBlock_UnmarshalBinary 1000000 nilEntryInput = Inl NilDereference"
proof -
  have len: "length nilEntryInput = 219"
    by (simp add: nilEntryInput_def)
  have cnt: "Uint64 (take 8 (drop 210 nilEntryInput)) = 1"
    by (simp add: nilEntryInput_def)
  have ty: "nilEntryInput ! 218 = TYPE_SERVER_INDEX"
    by (simp add: nilEntryInput_def nth_append)
  have "CBlock_UnmarshalBinary 1000000 nilEntryInput = Inl NilDereference"
    using CBlock_UnmarshalBinary_unknown_type_panics
      [OF CBlockHeader_UnmarshalBinary_nilEntryInput, of 1000000] len cnt ty
    by (simp add: TYPE_SERVER_INDEX_def TYPE_BUY_def TYPE_PAY_CHAIN_def TYPE_PAY_ENTRY_def)
  with CBlockHeader_UnmarshalBinary_nilEntryInput len cnt ty show ?thesis
    by simp
qed

section \<open>Evaluation of the examples\<close>

lemmas ex_defs = rosterABC_def rosterAA_def rosterNotifyIsTerm_def rosterHandOff_def rosterAsC_def
  rosterAK_def rosterK_def rosterFK_def bannedServer_def bannedState_def mkServer_def mkFed_def
  mkPeer_def mkPolicy_def

lemmas query_defs = IsLeader_def IsLeaderElect_def IsPrevLeader_def IsCandidate_def myPeer_def
  GetMyFederateServer_def GetFederateServerByID_def GetLeaderElect_def GetLeaderPeer_def
  GetPrevLeaderPeer_def GetPeer_def GetPeerByID_def isSingleServerMode_def FederateServerCount_def
  nonCandidateServers_def peer_IsCandidate_def

section \<open>The role mutators and the uniqueness of the three roles\<close>

lemma set_holders:
  "set (holders s ns) = {r \<in> Peer ` set (federateServers s). nodeState (peers s r) = ns}"
  by (auto simp: holders_def)

lemma atMostOne_iff:
  "atMostOne s ns \<longleftrightarrow> (\<forall>x y. x \<in> set (holders s ns) \<and> y \<in> set (holders s ns) \<longrightarrow> x = y)"
proof -
  have d: "distinct (holders s ns)"
    by (simp add: holders_def)
  show ?thesis
  proof
    assume "atMostOne s ns"
    then have "length (holders s ns) \<le> 1"
      by (simp add: atMostOne_def)
    then show "\<forall>x y. x \<in> set (holders s ns) \<and> y \<in> set (holders s ns) \<longrightarrow> x = y"
      by (cases "holders s ns") auto
  next
    assume a: "\<forall>x y. x \<in> set (holders s ns) \<and> y \<in> set (holders s ns) \<longrightarrow> x = y"
    show "atMostOne s ns"
    proof (cases "holders s ns")
      case Nil
      then show ?thesis by (simp add: atMostOne_def)
    next
      case (Cons x xs)
      have "xs = []"
      proof (cases xs)
        case Nil
        then show ?thesis .
      next
        case (Cons y ys)
        with \<open>holders s ns = x # xs\<close> a d show ?thesis
          by (metis distinct.simps(2) list.set_intros(1) list.set_intros(2))
      qed
      with Cons show ?thesis by (simp add: atMostOne_def)
    qed
  qed
qed

lemma setNodeState_simps [simp]:
  "federateServers (setNodeState p ns s) = federateServers s"
  "server.nodeID (setNodeState p ns s) = server.nodeID s"
  "server.nodeType (setNodeState p ns s) = server.nodeType s"
  "myLeaderPolicy (setNodeState p ns s) = myLeaderPolicy s"
  "broadcast (setNodeState p ns s) = broadcast s"
  "nodeState (peers (setNodeState p ns s) q) = (if q = p then ns else nodeState (peers s q))"
  "peer.nodeID (peers (setNodeState p ns s) q) = peer.nodeID (peers s q)"
  by (simp_all add: setNodeState_def)

lemma GetPeer_Some:
  assumes "GetPeer s ns = Some q"
  shows "q \<in> set (holders s ns)"
proof -
  from assms obtain fs where f: "find (\<lambda>fs. nodeState (peers s (Peer fs)) = ns) (federateServers s) = Some fs"
    and q: "q = Peer fs"
    by (auto simp: GetPeer_def)
  from f have "fs \<in> set (federateServers s)" "nodeState (peers s (Peer fs)) = ns"
    by (auto simp: find_Some_iff)
  with q show ?thesis by (auto simp: set_holders)
qed

lemma GetPeer_None:
  assumes "GetPeer s ns = None"
  shows "set (holders s ns) = {}"
  using assms by (auto simp: GetPeer_def set_holders find_None_iff)

text \<open>After the holder found by \<open>GetPeer\<close> is given another role, nobody holds the role.\<close>

lemma demote_clears:
  assumes "atMostOne s r" and "r' \<noteq> r"
  shows "set (holders (case GetPeer s r of None \<Rightarrow> s | Some q \<Rightarrow> setNodeState q r' s) r) = {}"
proof (cases "GetPeer s r")
  case None
  then show ?thesis by (simp add: GetPeer_None)
next
  case (Some q)
  then have "q \<in> set (holders s r)" by (rule GetPeer_Some)
  with assms(1) have "\<forall>x \<in> set (holders s r). x = q"
    by (auto simp: atMostOne_iff)
  with assms(2) Some show ?thesis
    by (auto simp: set_holders)
qed

lemma demote_others:
  assumes "x \<noteq> r'"
  shows "set (holders (case GetPeer s r of None \<Rightarrow> s | Some q \<Rightarrow> setNodeState q r' s) x)
     \<subseteq> set (holders s x)"
  using assms by (auto simp: set_holders split: option.splits if_splits)

lemma assign_role:
  "set (holders (setNodeState p r s) r) \<subseteq> insert p (set (holders s r))"
  "x \<noteq> r \<Longrightarrow> set (holders (setNodeState p r s) x) \<subseteq> set (holders s x)"
  by (auto simp: set_holders split: if_splits)

lemma atMostOne_subset:
  assumes "atMostOne s ns" and "set (holders t ns) \<subseteq> set (holders s ns)"
  shows "atMostOne t ns"
  using assms unfolding atMostOne_iff by blast

lemma atMostOne_subset_single:
  assumes "set (holders t ns) \<subseteq> {p}"
  shows "atMostOne t ns"
  using assms unfolding atMostOne_iff by blast

text \<open>Assigning role \<open>r\<close> to \<open>p\<close> after the holder found by \<open>GetPeer\<close> was demoted to
  \<open>r'\<close>, a role that is not one of the three: the three roles stay unique.\<close>

lemma demote_then_assign:
  assumes u: "rolesUnique s" and r: "r \<in> {NodeLeaderElect, NodeLeaderPrev}"
  defines "s1 \<equiv> (case GetPeer s r of None \<Rightarrow> s | Some q \<Rightarrow> setNodeState q NodeFollower s)"
  shows "rolesUnique (setNodeState p r s1)" and "rolesUnique s1"
proof -
  have ar: "atMostOne s r"
    using u r by (auto simp: rolesUnique_def)
  have clear: "set (holders s1 r) = {}"
    unfolding s1_def using ar r by (intro demote_clears) auto
  have sub: "\<And>x. x \<noteq> NodeFollower \<Longrightarrow> set (holders s1 x) \<subseteq> set (holders s x)"
    unfolding s1_def by (rule demote_others)
  have one: "\<And>x. x \<in> {NodeLeader, NodeLeaderElect, NodeLeaderPrev} \<Longrightarrow> atMostOne s1 x"
    using u sub by (auto simp: rolesUnique_def intro: atMostOne_subset)
  then show "rolesUnique s1"
    by (simp add: rolesUnique_def)
  have a: "atMostOne (setNodeState p r s1) r"
    using assign_role(1) [of p r s1] clear by (intro atMostOne_subset_single [of _ _ p]) auto
  have b: "\<And>x. x \<in> {NodeLeader, NodeLeaderElect, NodeLeaderPrev} \<Longrightarrow> x \<noteq> r
      \<Longrightarrow> atMostOne (setNodeState p r s1) x"
    using one assign_role(2) [of _ r p s1] by (blast intro: atMostOne_subset)
  show "rolesUnique (setNodeState p r s1)"
    unfolding rolesUnique_def using a b r by (cases "r = NodeLeaderElect") auto
qed

lemma setLeaderElect_rolesUnique: "rolesUnique s \<Longrightarrow> rolesUnique (setLeaderElect p s)"
  unfolding setLeaderElect_def Let_def by (rule demote_then_assign(1)) auto

lemma SetPrevLeaderPeer_rolesUnique: "rolesUnique s \<Longrightarrow> rolesUnique (SetPrevLeaderPeer p s)"
  unfolding SetPrevLeaderPeer_def Let_def by (rule demote_then_assign(1)) auto

lemma setLeaderElectByID_rolesUnique:
  assumes "rolesUnique s"
  shows "rolesUnique (setLeaderElectByID pid s)"
proof -
  define s1 where "s1 = (case GetPeer s NodeLeaderElect of None \<Rightarrow> s
      | Some q \<Rightarrow> setNodeState q NodeFollower s)"
  have "rolesUnique s1" and "\<And>p. rolesUnique (setNodeState p NodeLeaderElect s1)"
    unfolding s1_def using demote_then_assign [OF assms, of NodeLeaderElect] by auto
  then show ?thesis
    by (simp add: setLeaderElectByID_def Let_def s1_def [symmetric] split: option.split)
qed

lemma SetPrevLeaderByID_rolesUnique:
  assumes "rolesUnique s"
  shows "rolesUnique (SetPrevLeaderByID pid s)"
proof -
  define s1 where "s1 = (case GetPeer s NodeLeaderPrev of None \<Rightarrow> s
      | Some q \<Rightarrow> setNodeState q NodeFollower s)"
  have "rolesUnique s1" and "\<And>p. rolesUnique (setNodeState p NodeLeaderPrev s1)"
    unfolding s1_def using demote_then_assign [OF assms, of NodeLeaderPrev] by auto
  then show ?thesis
    by (simp add: SetPrevLeaderByID_def Let_def s1_def [symmetric] split: option.split)
qed

text \<open>\<^verbatim>\<open>SetLeaderPeer\<close> keeps at most one Leader and at most one LeaderElect.\<close>

lemma SetLeaderPeer_Leader_LeaderElect:
  assumes "rolesUnique s"
  shows "atMostOne (SetLeaderPeer p s) NodeLeader \<and> atMostOne (SetLeaderPeer p s) NodeLeaderElect"
proof -
  define s1 where "s1 = (case GetPeer s NodeLeader of None \<Rightarrow> s
      | Some q \<Rightarrow> setNodeState q NodeLeaderPrev s)"
  have clear: "set (holders s1 NodeLeader) = {}"
    unfolding s1_def using assms by (intro demote_clears) (auto simp: rolesUnique_def)
  have sub: "set (holders s1 NodeLeaderElect) \<subseteq> set (holders s NodeLeaderElect)"
    unfolding s1_def by (rule demote_others) simp
  have e: "atMostOne s1 NodeLeaderElect"
    using assms sub by (auto simp: rolesUnique_def intro: atMostOne_subset)
  have a: "atMostOne (setNodeState p NodeLeader s1) NodeLeader"
    using assign_role(1) [of p NodeLeader s1] clear
    by (intro atMostOne_subset_single [of _ _ p]) auto
  have b: "atMostOne (setNodeState p NodeLeader s1) NodeLeaderElect"
    using e assign_role(2) [of NodeLeaderElect NodeLeader p s1]
    by (auto intro: atMostOne_subset)
  show ?thesis
    using a b by (simp add: SetLeaderPeer_def GetLeaderPeer_def s1_def)
qed

text \<open>
  Claim C1 asks that each of the six role mutators keep at most one Leader, one
  LeaderElect and one LeaderPrev. \<^verbatim>\<open>SetLeaderPeer\<close> and \<^verbatim>\<open>SetLeaderPeerByID\<close> give
  the displaced Leader the role LeaderPrev without demoting the peer that holds
  LeaderPrev already, as \<^verbatim>\<open>SetPrevLeaderPeer\<close> does: in the roster of A (Leader),
  B (LeaderPrev) and C (Follower), where each role has at most one holder, making C the
  Leader leaves both A and B as LeaderPrev.
\<close>

theorem SetLeaderPeer_two_LeaderPrev:
  "rolesUnique rosterABC
   \<and> holders (SetLeaderPeer 2 rosterABC) NodeLeaderPrev = [0, 1]
   \<and> \<not> rolesUnique (SetLeaderPeer 2 rosterABC)
   \<and> holders (SetLeaderPeerByID ''C'' rosterABC) NodeLeaderPrev = [0, 1]
   \<and> \<not> rolesUnique (SetLeaderPeerByID ''C'' rosterABC)"
  by (simp add: rolesUnique_def atMostOne_def holders_def rosterABC_def mkServer_def mkFed_def
      mkPeer_def SetLeaderPeer_def SetLeaderPeerByID_def GetLeaderPeer_def GetPeer_def
      GetPeerByID_def setNodeState_def)

section \<open>handleAddPeerMsg: the refusals\<close>

lemma duplicatedPeer_iff:
  "duplicatedPeer ps p feds \<longleftrightarrow>
     (\<exists>fed \<in> set feds. addr (ps (Peer fed)) = addr p \<or> peer.nodeID (ps (Peer fed)) = peer.nodeID p)"
  by (induction feds) auto

lemma Count_banned [simp]: "Count (st\<lparr>banned := b\<rparr>) = Count st"
  by (simp add: Count_def)

text \<open>
  Claim C5: for a peer \<open>p\<close> that is not \<^verbatim>\<open>nil\<close>, if the shutdown flag is set, or the
  address or the identifier of \<open>p\<close> is that of a federate server of the roster, or the
  host of \<open>p\<close> is banned until a time after now, or the number of peers is at least
  \<^verbatim>\<open>MaxPeers\<close>, then \<^verbatim>\<open>handleAddPeerMsg\<close> returns false, \<^verbatim>\<open>p.Shutdown()\<close> is
  called, and the three maps of active peers are unchanged.
\<close>

theorem handleAddPeerMsg_refuses:
  assumes "shutdown s \<noteq> 0
     \<or> (\<exists>fed \<in> set (federateServers s).
           addr (peers s (Peer fed)) = addr (peers s p)
           \<or> peer.nodeID (peers s (Peer fed)) = peer.nodeID (peers s p))
     \<or> (\<exists>host port banEnd. SplitHostPort env (addr (peers s p)) = Some (host, port)
           \<and> banned st host = Some banEnd \<and> now < banEnd)
     \<or> Count st \<ge> MaxPeers s"
  shows "fst (handleAddPeerMsg env now st (Some p) s) = False
     \<and> shutdownCalls (snd (snd (handleAddPeerMsg env now st (Some p) s))) = shutdownCalls s @ [p]
     \<and> inboundPeers (fst (snd (handleAddPeerMsg env now st (Some p) s))) = inboundPeers st
     \<and> outboundPeers (fst (snd (handleAddPeerMsg env now st (Some p) s))) = outboundPeers st
     \<and> persistentPeers (fst (snd (handleAddPeerMsg env now st (Some p) s))) = persistentPeers st"
  using assms
  by (auto simp: handleAddPeerMsg_def duplicatedPeer_iff peer_Shutdown_def Let_def
      split: option.splits)

theorem handleAddPeerMsg_refuses_witness:
  "SplitHostPort exampleEnv (addr (peers bannedServer 4)) = Some (''D'', ''8108'')
   \<and> banned bannedState ''D'' = Some 2000 \<and> (1000 :: int) < 2000
   \<and> handleAddPeerMsg exampleEnv 1000 bannedState (Some 4) bannedServer
       = (False, bannedState, bannedServer\<lparr>shutdownCalls := [4]\<rparr>)"
proof -
  have h: "SplitHostPort exampleEnv (addr (peers bannedServer 4)) = Some (''D'', ''8108'')"
    "banned bannedState ''D'' = Some 2000"
    by (simp_all add: exampleEnv_def bannedServer_def bannedState_def mkPeer_def rosterABC_def
        mkServer_def)
  have r: "handleAddPeerMsg exampleEnv 1000 bannedState (Some 4) bannedServer
       = (False, bannedState, bannedServer\<lparr>shutdownCalls := [4]\<rparr>)"
    using h
    by (simp add: handleAddPeerMsg_def peer_Shutdown_def bannedServer_def rosterABC_def
        mkServer_def mkFed_def mkPeer_def)
  show ?thesis
    using handleAddPeerMsg_refuses [of bannedServer 4 exampleEnv bannedState 1000] h r
    by simp
qed

section \<open>selectCurrentleader on a candidate\<close>

lemma rosterIDs_inj:
  assumes "distinct (rosterIDs s)" and "x \<in> set (federateServers s)" and "y \<in> set (federateServers s)"
    and "peer.nodeID (peers s (Peer x)) = peer.nodeID (peers s (Peer y))"
  shows "x = y"
  using assms unfolding rosterIDs_def distinct_map by (auto dest: inj_onD)

lemma GetMyFederateServer_Some:
  assumes "GetMyFederateServer s = Some fs"
  shows "fs \<in> set (federateServers s)" and "peer.nodeID (peers s (Peer fs)) = server.nodeID s"
  using assms by (auto simp: GetMyFederateServer_def GetFederateServerByID_def find_Some_iff)

lemma role_query_Inr:
  "IsCandidate s = Inr b \<longleftrightarrow>
     (\<exists>fs. GetMyFederateServer s = Some fs \<and> b = (nodeState (peers s (Peer fs)) = NodeCandidate))"
  "IsLeader s = Inr b \<longleftrightarrow>
     (\<exists>fs. GetMyFederateServer s = Some fs \<and> b = (nodeState (peers s (Peer fs)) = NodeLeader))"
  "IsLeaderElect s = Inr b \<longleftrightarrow>
     (\<exists>fs. GetMyFederateServer s = Some fs \<and> b = (nodeState (peers s (Peer fs)) = NodeLeaderElect))"
  "IsPrevLeader s = Inr b \<longleftrightarrow>
     (\<exists>fs. GetMyFederateServer s = Some fs \<and> b = (nodeState (peers s (Peer fs)) = NodeLeaderPrev))"
  by (auto simp: IsCandidate_def IsLeader_def IsLeaderElect_def IsPrevLeader_def myPeer_def
      split: option.splits)

lemma role_query_of_fed:
  assumes "GetMyFederateServer s = Some fs"
  shows "IsCandidate s = Inr (nodeState (peers s (Peer fs)) = NodeCandidate)"
    and "IsLeader s = Inr (nodeState (peers s (Peer fs)) = NodeLeader)"
    and "IsLeaderElect s = Inr (nodeState (peers s (Peer fs)) = NodeLeaderElect)"
    and "IsPrevLeader s = Inr (nodeState (peers s (Peer fs)) = NodeLeaderPrev)"
  using assms
  by (simp_all add: IsCandidate_def IsLeader_def IsLeaderElect_def IsPrevLeader_def myPeer_def)

lemma sortsBy_count:
  assumes "sortsBy Sort lt"
  shows "count_list (Sort lt xs) x = count_list xs x"
  using assms by (simp add: sortsBy_def)

lemma sortsBy_sorted:
  assumes "sortsBy Sort lt"
  shows "sorted_wrt (\<lambda>a b. \<not> lt b a) (Sort lt xs)"
  using assms by (simp add: sortsBy_def)

lemma sortsBy_set:
  assumes "sortsBy Sort lt"
  shows "set (Sort lt xs) = set xs"
proof -
  have "x \<in> set (Sort lt xs) \<longleftrightarrow> x \<in> set xs" for x
    using sortsBy_count [OF assms, of xs x] count_list_0_iff [of "Sort lt xs" x]
      count_list_0_iff [of xs x]
    by simp
  then show ?thesis
    by blast
qed

text \<open>The insertion sort of the examples does what \<^verbatim>\<open>sort.Sort\<close> promises.\<close>

lemma count_list_moveLeft: "count_list (moveLeft lt x ys) z = count_list (x # ys) z"
  by (induction ys) auto

lemma count_list_foldl_moveLeft:
  "count_list (foldl (\<lambda>prefix x. moveLeft lt x prefix) acc xs) z
     = count_list acc z + count_list xs z"
  by (induction xs arbitrary: acc) (simp_all add: count_list_moveLeft)

lemma set_moveLeft: "set (moveLeft lt x ys) = insert x (set ys)"
  by (induction ys) auto

lemma sorted_moveLeft:
  fixes f :: "'a \<Rightarrow> 'k :: linorder"
  assumes "sorted_wrt (\<lambda>a b. f b \<le> f a) ys"
  shows "sorted_wrt (\<lambda>a b. f b \<le> f a) (moveLeft (\<lambda>a b. f a < f b) x ys)"
  using assms by (induction ys) (auto simp: set_moveLeft)

lemma sorted_foldl_moveLeft:
  fixes f :: "'a \<Rightarrow> 'k :: linorder"
  assumes "sorted_wrt (\<lambda>a b. f b \<le> f a) acc"
  shows "sorted_wrt (\<lambda>a b. f b \<le> f a)
           (foldl (\<lambda>prefix x. moveLeft (\<lambda>a b. f a < f b) x prefix) acc xs)"
  using assms by (induction xs arbitrary: acc) (simp_all add: sorted_moveLeft)

lemma insertionSort_sorted:
  fixes f :: "'a \<Rightarrow> 'k :: linorder"
  shows "sorted_wrt (\<lambda>a b. \<not> f b < f a) (insertionSort (\<lambda>a b. f a < f b) xs)"
  using sorted_foldl_moveLeft [of f "[]" xs]
  by (simp add: insertionSort_def sorted_wrt_rev not_less)

lemma insertionSort_count: "count_list (insertionSort lt xs) z = count_list xs z"
  by (simp add: insertionSort_def count_list_foldl_moveLeft)

lemma insertionSort_sortsBy:
  "sortsBy insertionSort ByLeaderLast_Less" "sortsBy insertionSort ByStartTime_Less"
proof -
  have l: "ByLeaderLast_Less = (\<lambda>a b. LeaderLast a < LeaderLast b)"
    and t: "ByStartTime_Less = (\<lambda>a b. StartTime a < StartTime b)"
    by (simp_all add: fun_eq_iff ByLeaderLast_Less_def ByStartTime_Less_def)
  show "sortsBy insertionSort ByLeaderLast_Less"
    unfolding sortsBy_def l by (intro allI conjI insertionSort_count insertionSort_sorted)
  show "sortsBy insertionSort ByStartTime_Less"
    unfolding sortsBy_def t by (intro allI conjI insertionSort_count insertionSort_sorted)
qed

text \<open>
  Claim C4: for every roster whose node identifiers are pairwise distinct and every
  height, if this node's role is Candidate then \<^verbatim>\<open>selectCurrentleader\<close> returns with
  the server unchanged: no \<^verbatim>\<open>CurrentLeader\<close> message is broadcast and no role
  changes. This holds in particular when there are candidates and no non-candidates,
  and whatever order \<^verbatim>\<open>sort.Sort\<close> leaves among equal start times.
\<close>

theorem selectCurrentleader_candidate_no_action:
  assumes srt: "sortsBy Sort ByStartTime_Less"
    and d: "distinct (rosterIDs s)" and c: "IsCandidate s = Inr True"
  shows "selectCurrentleader Sort height s = Inr s"
proof -
  from c obtain me where me: "GetMyFederateServer s = Some me"
    and st: "nodeState (peers s (Peer me)) = NodeCandidate"
    by (auto simp: role_query_Inr)
  note mem = GetMyFederateServer_Some [OF me]
  have q: "IsLeader s = Inr False" "IsLeaderElect s = Inr False"
    using role_query_of_fed [OF me] st by simp_all
  define nonC where "nonC = filter (\<lambda>fs. \<not> peer_IsCandidate (peers s (Peer fs))) (federateServers s)"
  define cands where "cands = filter (\<lambda>fs. peer_IsCandidate (peers s (Peer fs))) (federateServers s)"
  have part: "nonCandidateServers s = (nonC, cands)"
    by (simp add: nonCandidateServers_def nonC_def cands_def)
  have "me \<in> set cands"
    using mem(1) st by (simp add: cands_def peer_IsCandidate_def)
  then have cne: "length cands > 0"
    by (cases cands) auto
  have first: "peer.nodeID (peers s (Peer x)) \<noteq> server.nodeID s" if "x \<in> set nonC" for x
  proof
    assume "peer.nodeID (peers s (Peer x)) = server.nodeID s"
    moreover from that have xin: "x \<in> set (federateServers s)"
      and xnc: "nodeState (peers s (Peer x)) \<noteq> NodeCandidate"
      by (auto simp: nonC_def peer_IsCandidate_def)
    ultimately have "x = me"
      using rosterIDs_inj [OF d xin mem(1)] mem(2) by simp
    with xnc st show False by simp
  qed
  note sset = sortsBy_set [OF srt, of nonC]
  show ?thesis
  proof (cases nonC)
    case Nil
    with cne show ?thesis
      by (simp add: selectCurrentleader_def q part)
  next
    case (Cons a as)
    then have "Sort ByStartTime_Less nonC \<noteq> []"
      using sset by auto
    then obtain f rest where fr: "Sort ByStartTime_Less nonC = f # rest"
      by (cases "Sort ByStartTime_Less nonC") auto
    then have "f \<in> set nonC"
      using sset by auto
    then have "peer.nodeID (peers s (Peer f)) \<noteq> server.nodeID s"
      by (rule first)
    then show ?thesis
      using Cons fr
      by (simp add: selectCurrentleader_def q c part split: option.splits)
  qed
qed

theorem selectCurrentleader_candidate_no_action_witness:
  "sortsBy insertionSort ByStartTime_Less
   \<and> distinct (rosterIDs rosterK) \<and> IsCandidate rosterK = Inr True
   \<and> fst (nonCandidateServers rosterK) = [] \<and> snd (nonCandidateServers rosterK) \<noteq> []
   \<and> selectCurrentleader insertionSort 10 rosterK = Inr rosterK
   \<and> distinct (rosterIDs rosterFK) \<and> IsCandidate rosterFK = Inr True
   \<and> selectCurrentleader insertionSort 10 rosterFK = Inr rosterFK"
proof -
  have a: "distinct (rosterIDs rosterK)" "IsCandidate rosterK = Inr True"
    "fst (nonCandidateServers rosterK) = []" "snd (nonCandidateServers rosterK) \<noteq> []"
    "distinct (rosterIDs rosterFK)" "IsCandidate rosterFK = Inr True"
    by (simp_all add: ex_defs query_defs rosterIDs_def)
  from selectCurrentleader_candidate_no_action [OF insertionSort_sortsBy(2) a(1,2), of 10]
    selectCurrentleader_candidate_no_action [OF insertionSort_sortsBy(2) a(5,6), of 10] a
    insertionSort_sortsBy(2)
  show ?thesis
    by simp
qed

section \<open>selectNextLeader\<close>

lemma selectNextLeader_not_leader:
  assumes "IsLeader s = Inr False"
  shows "selectNextLeader Sort height s = Inr s"
  using assms by (simp add: selectNextLeader_def)

lemma find_Some_ex:
  assumes "x \<in> set xs" and "P x"
  shows "\<exists>y. find P xs = Some y"
  using assms by (cases "find P xs") (auto simp: find_None_iff)

lemma find_Some_holds:
  assumes "find P xs = Some x"
  shows "x \<in> set xs \<and> P x"
  using assms by (auto simp: find_Some_iff)

text \<open>The first element with a property, in a list where no element is less than one
  before it: no element with the property is less than it.\<close>

lemma find_sorted_wrt_least:
  assumes "sorted_wrt (\<lambda>a b. \<not> lt b a) xs" and "find P xs = Some x" and "y \<in> set xs"
    and "P y"
  shows "y = x \<or> \<not> lt y x"
  using assms
proof (induction xs)
  case Nil
  then show ?case by simp
next
  case (Cons a xs)
  then show ?case
    by (cases "P a") auto
qed

text \<open>
  Claim C3, as stated, holds for every roster. When the roster has a second entry with
  the identifier of this node, the non-candidates are more than this node alone, yet
  none has another identifier: the code finds no successor and returns with nothing
  changed, the policy not extended and nothing broadcast.
\<close>

theorem selectNextLeader_duplicate_id_counterexample:
  "IsLeader rosterAA = Inr True
   \<and> myLeaderPolicy rosterAA = Some (mkPolicy 2 2 1)
   \<and> map (\<lambda>fs. peer.nodeID (peers rosterAA (Peer fs))) (fst (nonCandidateServers rosterAA))
       = [''A'', ''A'']
   \<and> selectNextLeader insertionSort 5 rosterAA = Inr rosterAA
   \<and> broadcast rosterAA = []
   \<and> StartDBHeight (mkPolicy 2 2 1) \<noteq> 5 + 3"
  by (simp add: ex_defs query_defs selectNextLeader_def insertionSort_def ByLeaderLast_Less_def)

text \<open>
  Claim C3, amended: if the caller is not the Leader, \<^verbatim>\<open>selectNextLeader\<close> changes
  nothing and broadcasts nothing. For a Leader with policy \<open>P\<close>: if the non-candidates
  are this node alone, it sets \<open>P.StartDBHeight = h + 3\<close> and broadcasts nothing;
  otherwise, when some non-candidate has an identifier other than its own, it sorts the
  non-candidates by \<^verbatim>\<open>LeaderLast\<close>, takes the first whose identifier differs from its
  own as next, broadcasts \<open>NextLeader(self, next, P.StartDBHeight + P.Term, sig)\<close> with
  \<open>sig = sign(self.nodeID || next.nodeID)\<close>, and sets \<open>P.Notified\<close>. Whatever order
  \<^verbatim>\<open>sort.Sort\<close> leaves among equal keys, next is a non-candidate other than this node
  and none of those has a smaller \<^verbatim>\<open>LeaderLast\<close>.
\<close>

theorem selectNextLeader_behaviour:
  assumes srt: "sortsBy Sort ByLeaderLast_Less"
  shows
  "(IsLeader s = Inr False \<longrightarrow> selectNextLeader Sort height s = Inr s)
   \<and> (IsLeader s = Inr True \<and> myLeaderPolicy s = Some P \<longrightarrow>
       (if map (\<lambda>fs. peer.nodeID (peers s (Peer fs))) (fst (nonCandidateServers s))
            = [server.nodeID s]
        then selectNextLeader Sort height s
               = Inr (s\<lparr>myLeaderPolicy := Some (P\<lparr>StartDBHeight := height + 3\<rparr>)\<rparr>)
        else (\<exists>fed \<in> set (fst (nonCandidateServers s)).
                 peer.nodeID (peers s (Peer fed)) \<noteq> server.nodeID s) \<longrightarrow>
             (\<exists>next.
               find (\<lambda>fed. peer.nodeID (peers s (Peer fed)) \<noteq> server.nodeID s)
                 (Sort ByLeaderLast_Less (fst (nonCandidateServers s))) = Some next
               \<and> next \<in> set (fst (nonCandidateServers s))
               \<and> peer.nodeID (peers s (Peer next)) \<noteq> server.nodeID s
               \<and> (\<forall>fed \<in> set (fst (nonCandidateServers s)).
                     peer.nodeID (peers s (Peer fed)) \<noteq> server.nodeID s
                     \<longrightarrow> LeaderLast next \<le> LeaderLast fed)
               \<and> selectNextLeader Sort height s
                   = Inr (s\<lparr>broadcast := broadcast s @
                              [NextLeaderMsg (server.nodeID s) (peer.nodeID (peers s (Peer next)))
                                 (StartDBHeight P + Term P)
                                 (privKey s (server.nodeID s @ peer.nodeID (peers s (Peer next))))],
                            myLeaderPolicy := Some (P\<lparr>Notified := True\<rparr>)\<rparr>))))"
proof (intro conjI impI)
  assume "IsLeader s = Inr False"
  then show "selectNextLeader Sort height s = Inr s"
    by (rule selectNextLeader_not_leader)
next
  assume a: "IsLeader s = Inr True \<and> myLeaderPolicy s = Some P"
  then have l: "IsLeader s = Inr True" and p: "myLeaderPolicy s = Some P"
    by simp_all
  define nonC where "nonC = filter (\<lambda>fs. \<not> peer_IsCandidate (peers s (Peer fs))) (federateServers s)"
  define cands where "cands = filter (\<lambda>fs. peer_IsCandidate (peers s (Peer fs))) (federateServers s)"
  define other where "other = (\<lambda>fed :: federateServer. peer.nodeID (peers s (Peer fed)) \<noteq> server.nodeID s)"
  have part: "nonCandidateServers s = (nonC, cands)"
    by (simp add: nonCandidateServers_def nonC_def cands_def)
  note sset = sortsBy_set [OF srt, of nonC]
  show "if map (\<lambda>fs. peer.nodeID (peers s (Peer fs))) (fst (nonCandidateServers s))
            = [server.nodeID s]
        then selectNextLeader Sort height s
               = Inr (s\<lparr>myLeaderPolicy := Some (P\<lparr>StartDBHeight := height + 3\<rparr>)\<rparr>)
        else (\<exists>fed \<in> set (fst (nonCandidateServers s)).
                 peer.nodeID (peers s (Peer fed)) \<noteq> server.nodeID s) \<longrightarrow>
             (\<exists>next.
               find (\<lambda>fed. peer.nodeID (peers s (Peer fed)) \<noteq> server.nodeID s)
                 (Sort ByLeaderLast_Less (fst (nonCandidateServers s))) = Some next
               \<and> next \<in> set (fst (nonCandidateServers s))
               \<and> peer.nodeID (peers s (Peer next)) \<noteq> server.nodeID s
               \<and> (\<forall>fed \<in> set (fst (nonCandidateServers s)).
                     peer.nodeID (peers s (Peer fed)) \<noteq> server.nodeID s
                     \<longrightarrow> LeaderLast next \<le> LeaderLast fed)
               \<and> selectNextLeader Sort height s
                   = Inr (s\<lparr>broadcast := broadcast s @
                              [NextLeaderMsg (server.nodeID s) (peer.nodeID (peers s (Peer next)))
                                 (StartDBHeight P + Term P)
                                 (privKey s (server.nodeID s @ peer.nodeID (peers s (Peer next))))],
                            myLeaderPolicy := Some (P\<lparr>Notified := True\<rparr>)\<rparr>))"
  proof (cases "map (\<lambda>fs. peer.nodeID (peers s (Peer fs))) nonC = [server.nodeID s]")
    case True
    then obtain x where x: "nonC = [x]" "peer.nodeID (peers s (Peer x)) = server.nodeID s"
      by (cases nonC) auto
    then have c1: "length nonC = 1 \<and> peer.nodeID (peers s (Peer (nonC ! 0))) = server.nodeID s"
      by simp
    have r: "selectNextLeader Sort height s
        = Inr (s\<lparr>myLeaderPolicy := Some (P\<lparr>StartDBHeight := height + 3\<rparr>)\<rparr>)"
      using c1 by (simp add: selectNextLeader_def l part p)
    show ?thesis
      unfolding part fst_conv by (subst if_P [OF True]) (rule r)
  next
    case False
    have len: "\<not> (length nonC = 1 \<and> peer.nodeID (peers s (Peer (nonC ! 0))) = server.nodeID s)"
      using False by (cases nonC) auto
    have step: "\<exists>nxt. find other (Sort ByLeaderLast_Less nonC) = Some nxt
          \<and> nxt \<in> set nonC \<and> other nxt
          \<and> (\<forall>fed \<in> set nonC. other fed \<longrightarrow> LeaderLast nxt \<le> LeaderLast fed)
          \<and> selectNextLeader Sort height s
              = Inr (s\<lparr>broadcast := broadcast s @
                       [NextLeaderMsg (server.nodeID s) (peer.nodeID (peers s (Peer nxt)))
                          (StartDBHeight P + Term P)
                          (privKey s (server.nodeID s @ peer.nodeID (peers s (Peer nxt))))],
                     myLeaderPolicy := Some (P\<lparr>Notified := True\<rparr>)\<rparr>)"
      if ex: "\<exists>fed \<in> set nonC. other fed"
    proof -
      from ex obtain o1 where o: "o1 \<in> set nonC" "other o1"
        by blast
      obtain nxt where nx: "find other (Sort ByLeaderLast_Less nonC) = Some nxt"
        using find_Some_ex [of o1 "Sort ByLeaderLast_Less nonC" other] o sset by auto
      from find_Some_holds [OF nx] sset have mem: "nxt \<in> set nonC" and on: "other nxt"
        by auto
      have least: "LeaderLast nxt \<le> LeaderLast fed" if "fed \<in> set nonC" "other fed" for fed
        using find_sorted_wrt_least [OF sortsBy_sorted [OF srt] nx, of fed] that sset
        by (auto simp: ByLeaderLast_Less_def)
      have r: "selectNextLeader Sort height s
          = Inr (s\<lparr>broadcast := broadcast s @
                   [NextLeaderMsg (server.nodeID s) (peer.nodeID (peers s (Peer nxt)))
                      (StartDBHeight P + Term P)
                      (privKey s (server.nodeID s @ peer.nodeID (peers s (Peer nxt))))],
                 myLeaderPolicy := Some (P\<lparr>Notified := True\<rparr>)\<rparr>)"
        using len nx
        by (auto simp: selectNextLeader_def l part p BroadcastMessage_def Let_def other_def)
      from nx mem on least r show ?thesis
        by blast
    qed
    show ?thesis
      unfolding part fst_conv
      by (subst if_not_P [OF False]) (use step in \<open>simp add: other_def\<close>)
  qed
qed

theorem selectNextLeader_behaviour_witness:
  "sortsBy insertionSort ByLeaderLast_Less
   \<and> IsLeader rosterAsC = Inr False
   \<and> selectNextLeader insertionSort 2 rosterAsC = Inr rosterAsC
   \<and> IsLeader rosterAK = Inr True
   \<and> selectNextLeader insertionSort 7 rosterAK
       = Inr (rosterAK\<lparr>myLeaderPolicy := Some ((mkPolicy 2 2 1)\<lparr>StartDBHeight := 10\<rparr>)\<rparr>)
   \<and> IsLeader rosterABC = Inr True
   \<and> map LeaderLast (fst (nonCandidateServers rosterABC)) = [5, 3, 0]
   \<and> selectNextLeader insertionSort 2 rosterABC
       = Inr (rosterABC\<lparr>broadcast := [NextLeaderMsg ''A'' ''C'' 4 ''signed:AC''],
                myLeaderPolicy := Some ((mkPolicy 2 2 1)\<lparr>Notified := True\<rparr>)\<rparr>)"
proof -
  have a: "IsLeader rosterAsC = Inr False"
    "IsLeader rosterAK = Inr True"
    "myLeaderPolicy rosterAK = Some (mkPolicy 2 2 1)"
    "IsLeader rosterABC = Inr True"
    "myLeaderPolicy rosterABC = Some (mkPolicy 2 2 1)"
    "map LeaderLast (fst (nonCandidateServers rosterABC)) = [5, 3, 0]"
    by (simp_all add: ex_defs query_defs)
  have ak: "map (\<lambda>fs. peer.nodeID (peers rosterAK (Peer fs))) (fst (nonCandidateServers rosterAK))
      = [server.nodeID rosterAK]"
    by (simp add: ex_defs query_defs)
  have abc: "map (\<lambda>fs. peer.nodeID (peers rosterABC (Peer fs))) (fst (nonCandidateServers rosterABC))
      \<noteq> [server.nodeID rosterABC]"
    "\<exists>fed \<in> set (fst (nonCandidateServers rosterABC)).
        peer.nodeID (peers rosterABC (Peer fed)) \<noteq> server.nodeID rosterABC"
    "find (\<lambda>fed. peer.nodeID (peers rosterABC (Peer fed)) \<noteq> server.nodeID rosterABC)
       (insertionSort ByLeaderLast_Less (fst (nonCandidateServers rosterABC)))
       = Some (mkFed 2 300 0)"
    by (simp_all add: ex_defs query_defs insertionSort_def ByLeaderLast_Less_def)
  have n: "peer.nodeID (peers rosterABC (Peer (mkFed 2 300 0))) = ''C''"
    "server.nodeID rosterABC = ''A''" "broadcast rosterABC = []"
    "privKey rosterABC ''AC'' = ''signed:AC''"
    by (simp_all add: ex_defs)
  have p: "StartDBHeight (mkPolicy 2 2 1) + Term (mkPolicy 2 2 1) = 4" "(7 :: 32 word) + 3 = 10"
    by (simp_all add: mkPolicy_def)
  note srt = insertionSort_sortsBy(1)
  from selectNextLeader_behaviour [OF srt, of rosterAsC 2 "mkPolicy 2 2 1"] a(1)
  have r1: "selectNextLeader insertionSort 2 rosterAsC = Inr rosterAsC"
    by simp
  from selectNextLeader_behaviour [OF srt, of rosterAK 7 "mkPolicy 2 2 1"] a(2,3) ak
  have r2: "selectNextLeader insertionSort 7 rosterAK
       = Inr (rosterAK\<lparr>myLeaderPolicy := Some ((mkPolicy 2 2 1)\<lparr>StartDBHeight := 10\<rparr>)\<rparr>)"
    by (simp add: p)
  from selectNextLeader_behaviour [OF srt, of rosterABC 2 "mkPolicy 2 2 1"] a(4,5) abc
  have r3: "selectNextLeader insertionSort 2 rosterABC
       = Inr (rosterABC\<lparr>broadcast := [NextLeaderMsg ''A'' ''C'' 4 ''signed:AC''],
                myLeaderPolicy := Some ((mkPolicy 2 2 1)\<lparr>Notified := True\<rparr>)\<rparr>)"
    by (simp add: n p)
  from srt a r1 r2 r3 show ?thesis
    by simp
qed

section \<open>handleNextLeader: the regime change of the leader\<close>

lemma GetPeer_state:
  assumes "GetPeer s ns = Some q"
  shows "nodeState (peers s q) = ns"
  using GetPeer_Some [OF assms] by (simp add: set_holders)

lemma GetPeer_cong:
  assumes "federateServers t = federateServers s"
    and "\<And>r. (nodeState (peers t r) = ns) = (nodeState (peers s r) = ns)"
  shows "GetPeer t ns = GetPeer s ns"
  unfolding GetPeer_def assms(1) by (simp add: assms(2))

lemma GetFederateServerByID_cong:
  assumes "federateServers t = federateServers s"
    and "\<And>r. peer.nodeID (peers t r) = peer.nodeID (peers s r)"
  shows "GetFederateServerByID t pid = GetFederateServerByID s pid"
  unfolding GetFederateServerByID_def assms(1) by (simp add: assms(2))

lemma GetPeerByID_eq: "GetPeerByID s pid = map_option Peer (GetFederateServerByID s pid)"
  by (simp add: GetPeerByID_def GetFederateServerByID_def)

lemma setLeaderLastOfFirst_find:
  assumes "find Q xs = Some x" and "\<And>y. Q (y\<lparr>LeaderLast := h\<rparr>) = Q y"
  shows "\<exists>ys. setLeaderLastOfFirst Q h xs = Some ys \<and> find Q ys = Some (x\<lparr>LeaderLast := h\<rparr>)"
  using assms(1)
proof (induction xs)
  case Nil
  then show ?case by simp
next
  case (Cons a xs)
  show ?case
  proof (cases "Q a")
    case True
    with Cons.prems show ?thesis by (simp add: assms(2))
  next
    case False
    with Cons.prems have "find Q xs = Some x" by simp
    from Cons.IH [OF this] False show ?thesis by auto
  qed
qed

lemma word_pred_not_greater:
  fixes x :: "32 word"
  assumes "x \<noteq> 0"
  shows "\<not> x - 1 > x"
  using measure_unat [OF assms] by (simp add: word_less_nat_alt)

text \<open>
  Claim C2, as stated, holds for every policy. The branch for the notification height
  comes first in the \<^verbatim>\<open>else if\<close> chain: with \<open>P.NotifyDBHeight = P.Term\<close> the height
  \<open>P.StartDBHeight + P.Term - 1\<close> is also \<open>P.StartDBHeight + P.NotifyDBHeight - 1\<close>, so
  \<^verbatim>\<open>selectNextLeader\<close> runs and the regime change does not: the node stays Leader
  and keeps its policy.
\<close>

theorem handleNextLeader_notify_equals_term_counterexample:
  "IsLeader rosterNotifyIsTerm = Inr True
   \<and> \<not> isSingleServerMode rosterNotifyIsTerm
   \<and> myLeaderPolicy rosterNotifyIsTerm = Some (mkPolicy 2 1 1)
   \<and> (2 :: 32 word) = StartDBHeight (mkPolicy 2 1 1) + Term (mkPolicy 2 1 1) - 1
   \<and> handleNextLeader insertionSort 2 rosterNotifyIsTerm
       = Inr (rosterNotifyIsTerm\<lparr>broadcast := [NextLeaderMsg ''A'' ''C'' 3 ''signed:AC''],
                myLeaderPolicy := Some ((mkPolicy 2 1 1)\<lparr>Notified := True\<rparr>)\<rparr>)
   \<and> IsPrevLeader (rosterNotifyIsTerm\<lparr>broadcast := [NextLeaderMsg ''A'' ''C'' 3 ''signed:AC''],
                myLeaderPolicy := Some ((mkPolicy 2 1 1)\<lparr>Notified := True\<rparr>)\<rparr>) = Inr False"
  by (simp add: ex_defs query_defs handleNextLeader_def selectNextLeader_def insertionSort_def
      ByLeaderLast_Less_def BroadcastMessage_def Let_def)

text \<open>
  Claim C2, amended: for a server that is the Leader and not in single-server mode, with
  a policy \<open>P\<close> such that \<open>P.NotifyDBHeight \<noteq> P.Term\<close> and \<open>P.StartDBHeight + P.Term\<close>
  does not wrap around to 0 in \<^verbatim>\<open>uint32\<close>, after \<^verbatim>\<open>handleNextLeader\<close> at the height
  \<open>h = P.StartDBHeight + P.Term - 1\<close> the server's own role is LeaderPrev, the peer that
  was LeaderElect (if there is one) is Leader, \<^verbatim>\<open>myLeaderPolicy\<close> is \<^verbatim>\<open>nil\<close>, and the
  server's own roster entry has \<open>LeaderLast = h\<close>.
\<close>

theorem handleNextLeader_regime_change:
  assumes l: "IsLeader s = Inr True" and m: "\<not> isSingleServerMode s"
    and p: "myLeaderPolicy s = Some P"
    and h: "height = StartDBHeight P + Term P - 1"
    and nowrap: "StartDBHeight P + Term P \<noteq> 0"
    and nt: "NotifyDBHeight P \<noteq> Term P"
  shows "\<exists>s'. handleNextLeader Sort height s = Inr s'
     \<and> IsPrevLeader s' = Inr True
     \<and> (\<forall>e. GetLeaderElect s = Some e \<longrightarrow> nodeState (peers s' e) = NodeLeader)
     \<and> myLeaderPolicy s' = None
     \<and> (\<exists>fs. GetMyFederateServer s' = Some fs \<and> LeaderLast fs = height)"
proof -
  from l obtain me where me: "GetMyFederateServer s = Some me"
    and st: "nodeState (peers s (Peer me)) = NodeLeader"
    by (auto simp: role_query_Inr)
  have le: "IsLeaderElect s = Inr False"
    using role_query_of_fed(3) [OF me] st by simp
  have byid: "GetPeerByID s (server.nodeID s) = Some (Peer me)"
    using me by (simp add: GetPeerByID_eq GetMyFederateServer_def)
  \<comment> \<open>\<^verbatim>\<open>SetPrevLeaderByID(s.nodeID)\<close>\<close>
  define s1a where "s1a = (case GetPeer s NodeLeaderPrev of None \<Rightarrow> s
      | Some q \<Rightarrow> setNodeState q NodeFollower s)"
  define s1 where "s1 = setNodeState (Peer me) NodeLeaderPrev s1a"
  have s1a_fed: "federateServers s1a = federateServers s"
    and s1a_id: "\<And>r. peer.nodeID (peers s1a r) = peer.nodeID (peers s r)"
    and s1a_nid: "server.nodeID s1a = server.nodeID s"
    by (simp_all add: s1a_def split: option.split)
  have s1a_el: "(nodeState (peers s1a r) = NodeLeaderElect) = (nodeState (peers s r) = NodeLeaderElect)"
    for r
    by (auto simp: s1a_def dest: GetPeer_state split: option.split)
  have "GetPeerByID s1a (server.nodeID s) = Some (Peer me)"
    using byid GetFederateServerByID_cong [OF s1a_fed s1a_id] by (simp add: GetPeerByID_eq)
  then have prev: "SetPrevLeaderByID (server.nodeID s) s = s1"
    by (simp add: SetPrevLeaderByID_def Let_def s1a_def [symmetric] s1_def)
  have s1_fed: "federateServers s1 = federateServers s"
    and s1_id: "\<And>r. peer.nodeID (peers s1 r) = peer.nodeID (peers s r)"
    and s1_nid: "server.nodeID s1 = server.nodeID s"
    by (simp_all add: s1_def s1a_fed s1a_id s1a_nid)
  have s1_me: "nodeState (peers s1 (Peer me)) = NodeLeaderPrev"
    by (simp add: s1_def)
  have s1_el: "(nodeState (peers s1 r) = NodeLeaderElect) = (nodeState (peers s r) = NodeLeaderElect)"
    for r
    using st by (auto simp: s1_def s1a_el)
  have elect: "GetLeaderElect s1 = GetLeaderElect s"
    unfolding GetLeaderElect_def by (rule GetPeer_cong [OF s1_fed s1_el])
  \<comment> \<open>\<^verbatim>\<open>SetLeaderPeer(elect)\<close>, when there is a leader-elect\<close>
  define s2 where "s2 = (case GetLeaderElect s1 of None \<Rightarrow> s1 | Some e \<Rightarrow> SetLeaderPeer e s1)"
  have s2_fed: "federateServers s2 = federateServers s"
    and s2_id: "\<And>r. peer.nodeID (peers s2 r) = peer.nodeID (peers s r)"
    and s2_nid: "server.nodeID s2 = server.nodeID s"
    by (simp_all add: s2_def SetLeaderPeer_def Let_def s1_fed s1_id s1_nid split: option.split)
  have s2_me: "nodeState (peers s2 (Peer me)) = NodeLeaderPrev"
  proof (cases "GetLeaderElect s1")
    case None
    then show ?thesis by (simp add: s2_def s1_me)
  next
    case (Some e)
    then have "nodeState (peers s1 e) = NodeLeaderElect"
      unfolding GetLeaderElect_def by (rule GetPeer_state)
    with s1_me have ne: "e \<noteq> Peer me" by auto
    have "q \<noteq> Peer me" if "GetLeaderPeer s1 = Some q" for q
      using GetPeer_state [of s1 NodeLeader q] that s1_me by (auto simp: GetLeaderPeer_def)
    with ne show ?thesis
      by (auto simp: s2_def Some SetLeaderPeer_def Let_def s1_me split: option.split)
  qed
  have s2_e: "nodeState (peers s2 e) = NodeLeader" if "GetLeaderElect s = Some e" for e
    using that elect by (simp add: s2_def SetLeaderPeer_def Let_def)
  \<comment> \<open>the policy is cleared and the own entry gets \<^verbatim>\<open>LeaderLast\<close>\<close>
  define s3 where "s3 = s2\<lparr>myLeaderPolicy := None\<rparr>"
  define Q where "Q = (\<lambda>fs :: federateServer. peer.nodeID (peers s3 (Peer fs)) = server.nodeID s3)"
  have Qfind: "find Q (federateServers s3) = Some me"
    using me by (simp add: Q_def s3_def s2_fed s2_id s2_nid GetMyFederateServer_def
        GetFederateServerByID_def)
  have "\<And>y. Q (y\<lparr>LeaderLast := height\<rparr>) = Q y"
    by (simp add: Q_def)
  from setLeaderLastOfFirst_find [OF Qfind this]
  obtain feds where feds: "setLeaderLastOfFirst Q height (federateServers s3) = Some feds"
    and ffind: "find Q feds = Some (me\<lparr>LeaderLast := height\<rparr>)"
    by blast
  define s' where "s' = s3\<lparr>federateServers := feds\<rparr>"
  have last: "setLeaderLastByID (server.nodeID s3) height s3 = Inr s'"
    using feds by (simp add: setLeaderLastByID_def Q_def s'_def)
  have last2: "setLeaderLastByID (server.nodeID s2) height s3 = Inr s'"
    using last by (simp add: s3_def)
  have mine: "GetMyFederateServer s' = Some (me\<lparr>LeaderLast := height\<rparr>)"
    using ffind by (simp add: GetMyFederateServer_def GetFederateServerByID_def s'_def Q_def s3_def)
  have branch: "\<not> height > StartDBHeight P + Term P"
    "height \<noteq> StartDBHeight P + NotifyDBHeight P - 1"
    using nowrap nt by (simp_all add: h word_pred_not_greater)
  have run: "handleNextLeader Sort height s = Inr s'"
    using branch m
    by (simp add: handleNextLeader_def l le p h [symmetric] prev Let_def s2_def [symmetric]
        s3_def [symmetric] last2)
  have "IsPrevLeader s' = Inr True"
    using role_query_of_fed(4) [OF mine] s2_me by (simp add: s'_def s3_def)
  moreover have "\<forall>e. GetLeaderElect s = Some e \<longrightarrow> nodeState (peers s' e) = NodeLeader"
    using s2_e by (simp add: s'_def s3_def)
  moreover have "myLeaderPolicy s' = None"
    by (simp add: s'_def s3_def)
  ultimately show ?thesis
    using run mine by auto
qed

theorem handleNextLeader_regime_change_witness:
  "IsLeader rosterHandOff = Inr True
   \<and> \<not> isSingleServerMode rosterHandOff
   \<and> myLeaderPolicy rosterHandOff = Some (mkPolicy 2 2 1)
   \<and> GetLeaderElect rosterHandOff = Some 1
   \<and> (\<exists>s'. handleNextLeader insertionSort 3 rosterHandOff = Inr s'
        \<and> IsPrevLeader s' = Inr True
        \<and> nodeState (peers s' 1) = NodeLeader
        \<and> myLeaderPolicy s' = None
        \<and> (\<exists>fs. GetMyFederateServer s' = Some fs \<and> LeaderLast fs = 3))"
proof -
  have a: "IsLeader rosterHandOff = Inr True" "\<not> isSingleServerMode rosterHandOff"
    "myLeaderPolicy rosterHandOff = Some (mkPolicy 2 2 1)"
    "GetLeaderElect rosterHandOff = Some 1"
    by (simp_all add: ex_defs query_defs)
  have b: "(3 :: 32 word) = StartDBHeight (mkPolicy 2 2 1) + Term (mkPolicy 2 2 1) - 1"
    "StartDBHeight (mkPolicy 2 2 1) + Term (mkPolicy 2 2 1) \<noteq> 0"
    "NotifyDBHeight (mkPolicy 2 2 1) \<noteq> Term (mkPolicy 2 2 1)"
    by (simp_all add: mkPolicy_def)
  from handleNextLeader_regime_change [OF a(1) a(2) a(3) b, of insertionSort] a show ?thesis
    by auto
qed

section \<open>The replenishment of outbound peers\<close>

text \<open>
  Claim C6 asks that an address whose last attempt was less than 10 minutes ago be
  skipped until 30 addresses have been skipped. The condition of the code is
  \<^verbatim>\<open>time.Now().After(addr.LastAttempt().Add(10*time.Minute)) && tries < 30\<close>: it
  skips the addresses whose last attempt was more than 10 minutes ago. With the clock at
  1000 s, an address tried at 900 s is the first answer of the address manager and an
  outbound peer is created for it; an address tried at 0 s is skipped.
\<close>

theorem outboundLoop_recent_address_connected:
  "1000000000000 - LastAttempt recentAddress < tenMinutes
   \<and> outboundPeers (fst (outboundLoop exampleEnv 1000000000000 [recentAddress] 0
         emptyPeerState rosterABC)) = {10}
   \<and> addr (peers (snd (outboundLoop exampleEnv 1000000000000 [recentAddress] 0
         emptyPeerState rosterABC)) 10) = ''10.0.0.7:8108''
   \<and> \<not> 1000000000000 - LastAttempt oldAddress < tenMinutes
   \<and> outboundLoop exampleEnv 1000000000000 [oldAddress] 0 emptyPeerState rosterABC
       = (emptyPeerState, rosterABC)"
  by (simp add: ex_defs recentAddress_def oldAddress_def tenMinutes_def exampleEnv_def
      emptyPeerState_def NeedMoreOutbound_def OutboundCount_def Count_def Itoa.simps
      newOutboundPeer_def handleAddPeerMsg_def Let_def)


section \<open>The RESTful admin handler: POST at the version root\<close>

lemma post_appends:
  assumes "Get frm ''format'' = [] \<and> jsonUnmarshal enc (Get frm ''data'') newPlainEntry = Inr e
     \<or> Get frm ''format'' = ''json'' \<and> jsonUnmarshal enc (Get frm ''data'') newPlainEntry = Inr e
     \<or> Get frm ''format'' = ''xml'' \<and> xmlUnmarshal enc (Get frm ''data'') newPlainEntry = Inr e"
  shows "post enc now context (ResBlock b) frm
     = Inr (ResEntry (e\<lparr>timeStamp := now\<rparr>), None,
            ResBlock (b\<lparr>entries := entries b @ [e\<lparr>timeStamp := now\<rparr>]\<rparr>))"
  using assms by (auto simp: post_def AddEntry_def Let_def)

lemma post_unsupported_format:
  assumes "Get frm ''format'' \<notin> {[], ''json'', ''xml''}"
  shows "post enc now context (ResBlock b) frm
     = Inr (ResNil, Some (createError errorUnsupportedUnmarshal
              (''The format '' @ [CHR 0x22] @ Get frm ''format'' @ [CHR 0x22]
               @ '' is not supported'')), ResBlock b)"
  using assms by (simp add: post_def Let_def)

lemma post_parse_failure:
  assumes "Get frm ''format'' = [] \<and> jsonUnmarshal enc (Get frm ''data'') newPlainEntry = Inl err
       \<and> k = errorJSONUnmarshal
     \<or> Get frm ''format'' = ''json'' \<and> jsonUnmarshal enc (Get frm ''data'') newPlainEntry = Inl err
       \<and> k = errorJSONUnmarshal
     \<or> Get frm ''format'' = ''xml'' \<and> xmlUnmarshal enc (Get frm ''data'') newPlainEntry = Inl err
       \<and> k = errorXMLUnmarshal"
  shows "post enc now context (ResBlock b) frm = Inr (ResNil, Some (createError k err), ResBlock b)"
  using assms by (auto simp: post_def Let_def)

text \<open>At the version root the handler passes the tip block to \<^verbatim>\<open>post\<close>; the response
  is made from the resource that \<^verbatim>\<open>post\<close> returned alone: the assignment
  \<^verbatim>\<open>data, err = marshal(resource, accept)\<close> replaces the error that \<^verbatim>\<open>post\<close>
  returned.\<close>

lemma serveRESTfulHTTP_POST_root:
  assumes "httpMethod req = ''POST''" and "length (path req) = 1" and "blocks \<noteq> []"
    and "post enc now (''/'' @ Join (path req) ''/'') (ResBlock (last blocks)) (form req)
           = Inr (res, err, ResBlock b)"
  shows "serveRESTfulHTTP enc findResource now blocks req
     = bindP (marshal enc res (accept req)) (\<lambda>(data, err').
       bindP (writeResponse enc (accept req) data err') (\<lambda>w. Inr (w, butlast blocks @ [b])))"
  using assms by (simp add: serveRESTfulHTTP_def)

lemma serveRESTfulHTTP_POST_appends:
  assumes "httpMethod req = ''POST''" and "length (path req) = 1" and "blocks \<noteq> []"
    and "Get (form req) ''format'' = [] \<and> jsonUnmarshal enc (Get (form req) ''data'') newPlainEntry = Inr e
     \<or> Get (form req) ''format'' = ''json'' \<and> jsonUnmarshal enc (Get (form req) ''data'') newPlainEntry = Inr e
     \<or> Get (form req) ''format'' = ''xml'' \<and> xmlUnmarshal enc (Get (form req) ''data'') newPlainEntry = Inr e"
    and "serveRESTfulHTTP enc findResource now blocks req = Inr (w, blocks')"
  shows "blocks' = butlast blocks
           @ [(last blocks)\<lparr>entries := entries (last blocks) @ [e\<lparr>timeStamp := now\<rparr>]\<rparr>]"
  using assms(5)
  unfolding serveRESTfulHTTP_POST_root [OF assms(1-3) post_appends [OF assms(4)]]
  by (auto simp: bindP_def split: sum.splits prod.splits)

text \<open>
  Claim C9 asks that a POST at the version root with an unknown format return the
  structured error \<^verbatim>\<open>errorUnsupportedUnmarshal\<close>, and that a parse failure return an
  unmarshal error. \<^verbatim>\<open>post\<close> returns these errors, but after the \<^verbatim>\<open>switch\<close> the
  handler assigns \<^verbatim>\<open>data, err = marshal(resource, accept)\<close>, which replaces the error
  by the result of marshalling the \<^verbatim>\<open>nil\<close> resource. For a POST of format \<open>yaml\<close>
  to the blocks \<open>[block0, block1]\<close>: \<^verbatim>\<open>post\<close> returns the error with status 400;
  the response of the handler, for every encoding, is made from \<open>marshal(nil)\<close> alone;
  and with an encoding that writes \<^verbatim>\<open>nil\<close> as \<open>null\<close> the response has status 200
  and the body \<open>null\<close>. No block changes.
\<close>

theorem serveRESTfulHTTP_drops_post_error:
  "post enc now ''/v1'' (ResBlock exampleBlock1) (form yamlRequest)
     = Inr (ResNil,
            Some \<lparr>ErrorCode = errorUnsupportedUnmarshal, HTTPCode = 400,
                  Message = ''The format '' @ [CHR 0x22] @ ''yaml'' @ [CHR 0x22]
                            @ '' is not supported''\<rparr>,
            ResBlock exampleBlock1)
   \<and> serveRESTfulHTTP enc findResource now [exampleBlock0, exampleBlock1] yamlRequest
     = bindP (marshal enc ResNil ''json'') (\<lambda>(data, err').
       bindP (writeResponse enc ''json'' data err')
         (\<lambda>w. Inr (w, [exampleBlock0, exampleBlock1])))
   \<and> serveRESTfulHTTP exampleEncoding findResource now [exampleBlock0, exampleBlock1] yamlRequest
     = Inr (\<lparr>contentType = Some ''application/json; charset=utf-8'', status = 200,
             body = ''null'' @ [CHR 0x0A, CHR 0x0A]\<rparr>,
            [exampleBlock0, exampleBlock1])"
proof -
  have f: "Get (form yamlRequest) ''format'' = ''yaml''"
    by (simp add: yamlRequest_def Get_def)
  have p: "post e now ''/v1'' (ResBlock exampleBlock1) (form yamlRequest)
     = Inr (ResNil,
            Some \<lparr>ErrorCode = errorUnsupportedUnmarshal, HTTPCode = 400,
                  Message = ''The format '' @ [CHR 0x22] @ ''yaml'' @ [CHR 0x22]
                            @ '' is not supported''\<rparr>,
            ResBlock exampleBlock1)" for e
    using post_unsupported_format [of "form yamlRequest" e now "''/v1''" exampleBlock1]
    by (simp add: f createError_def)
  have r: "httpMethod yamlRequest = ''POST''" "length (path yamlRequest) = 1"
    "accept yamlRequest = ''json''" "Join (path yamlRequest) ''/'' = ''v1''"
    by (simp_all add: yamlRequest_def)
  have s: "serveRESTfulHTTP e findResource now [exampleBlock0, exampleBlock1] yamlRequest
     = bindP (marshal e ResNil ''json'') (\<lambda>(data, err').
       bindP (writeResponse e ''json'' data err')
         (\<lambda>w. Inr (w, [exampleBlock0, exampleBlock1])))" for e
    by (simp add: serveRESTfulHTTP_def r p)
  have m: "marshal exampleEncoding ResNil ''json'' = Inr (''null'', None)"
    by (simp add: marshal_def marshalWith_def exampleEncoding_def)
  show ?thesis
    by (simp add: p s m writeResponse_def contentTypeOf_def)
qed

lemma serveRESTfulHTTP_json_example:
  "serveRESTfulHTTP exampleEncoding findResource 1425168000 [exampleBlock0, exampleBlock1] jsonRequest
     = Inr (\<lparr>contentType = Some ''application/json; charset=utf-8'', status = 200,
             body = ''{entry}'' @ [CHR 0x0A, CHR 0x0A]\<rparr>,
            [exampleBlock0,
             exampleBlock1\<lparr>entries := entries exampleBlock1
                @ [postedEntry\<lparr>timeStamp := 1425168000\<rparr>]\<rparr>])"
  by (simp add: serveRESTfulHTTP_def jsonRequest_def post_def Get_def exampleEncoding_def
      AddEntry_def Let_def marshal_def marshalWith_def writeResponse_def contentTypeOf_def)

end
